theory Spec2Isabelle
  imports Main "HOL-Library.Sublist"
begin

section \<open>The values of a loaded SARIF document\<close>

text \<open>
  \<^verbatim>\<open>sarifdump.py\<close> walks the tree that the loader built from a JSON file: nested Python
  dicts and lists with strings, integers, booleans and \<^verbatim>\<open>None\<close> at the leaves. The
  code never looks at the type of a value; it subscripts, tests membership and formats,
  and Python raises where the value does not support the operation. The model keeps
  that: one type of values, and every primitive the code uses is a function that
  either returns or raises.

  A dict is written as the list of its items in insertion order; lookup is
  \<^const>\<open>map_of\<close>. A string is a list of characters with code points below 256.
  Floating-point numbers are left out of the type.
\<close>

datatype json =
    JNull
  | JBool bool
  | JInt int
  | JStr string
  | JList "json list"
  | JDict "(string \<times> json) list"

datatype py_error = KeyError | IndexError | TypeError

datatype 'a outcome = Returns 'a | Raises py_error

subsection \<open>Python's \<^verbatim>\<open>==\<close>\<close>

text \<open>
  \<^verbatim>\<open>bool\<close> is a subclass of \<^verbatim>\<open>int\<close>, so \<^verbatim>\<open>True == 1\<close>; lists are equal when they
  have the same length and equal elements; dicts are equal when they have the same keys
  bound to equal values, whatever the insertion order.
\<close>

function (sequential) py_eq :: "json \<Rightarrow> json \<Rightarrow> bool" where
  "py_eq JNull JNull = True"
| "py_eq (JBool a) (JBool b) = (a = b)"
| "py_eq (JBool a) (JInt j) = ((if a then 1 else 0) = j)"
| "py_eq (JInt i) (JBool b) = (i = (if b then 1 else 0))"
| "py_eq (JInt i) (JInt j) = (i = j)"
| "py_eq (JStr s) (JStr t) = (s = t)"
| "py_eq (JList xs) (JList ys) = list_all2 py_eq xs ys"
| "py_eq (JDict a) (JDict b) =
     (set (map fst a) = set (map fst b) \<and>
      list_all (\<lambda>k. case map_of a k of
                       None \<Rightarrow> False
                     | Some v \<Rightarrow> (case map_of b k of None \<Rightarrow> False | Some w \<Rightarrow> py_eq v w))
               (map fst a))"
| "py_eq _ _ = False"
  by pat_completeness auto

lemma size_list_member: "x \<in> set xs \<Longrightarrow> f x < Suc (size_list f xs)"
  by (induction xs) auto

lemma size_map_of:
  "map_of kvs k = Some v \<Longrightarrow> size v < Suc (size_list (size_prod (\<lambda>x. 0) size) kvs)"
proof -
  assume "map_of kvs k = Some v"
  then have "(k, v) \<in> set kvs"
    by (rule map_of_SomeD)
  from size_list_member [OF this, of "size_prod (\<lambda>x. 0) size"] show ?thesis
    by simp
qed

termination py_eq
  by (relation "measure (\<lambda>(a, b). size a)") (auto simp: size_list_member size_map_of)

subsection \<open>Subscripting, membership, truth and iteration\<close>

text \<open>
  \<^verbatim>\<open>v[k]\<close> with a string key: a dict returns the value or raises \<^verbatim>\<open>KeyError\<close>; every
  other type raises \<^verbatim>\<open>TypeError\<close> (a list or a string wants an integer index, the rest
  is not subscriptable).
\<close>

fun py_getitem :: "json \<Rightarrow> string \<Rightarrow> json outcome" where
  "py_getitem (JDict kvs) k = (case map_of kvs k of None \<Rightarrow> Raises KeyError | Some v \<Rightarrow> Returns v)"
| "py_getitem _ k = Raises TypeError"

text \<open>
  \<^verbatim>\<open>v[0]\<close>: the first element of a list, the first character of a string,
  \<^verbatim>\<open>IndexError\<close> when either is empty; a dict loaded from JSON has string keys only,
  so the key \<^verbatim>\<open>0\<close> is missing.
\<close>

fun py_item0 :: "json \<Rightarrow> json outcome" where
  "py_item0 (JList []) = Raises IndexError"
| "py_item0 (JList (x # xs)) = Returns x"
| "py_item0 (JStr []) = Raises IndexError"
| "py_item0 (JStr (c # cs)) = Returns (JStr [c])"
| "py_item0 (JDict kvs) = Raises KeyError"
| "py_item0 _ = Raises TypeError"

text \<open>
  \<^verbatim>\<open>k in v\<close> with a string \<^verbatim>\<open>k\<close>: a key of the dict, an element of the list, a
  substring of the string; \<^verbatim>\<open>TypeError\<close> for a value that is not a container.
\<close>

fun py_contains :: "string \<Rightarrow> json \<Rightarrow> bool outcome" where
  "py_contains k (JDict kvs) = Returns (map_of kvs k \<noteq> None)"
| "py_contains k (JList xs) = Returns (list_ex (\<lambda>x. py_eq x (JStr k)) xs)"
| "py_contains k (JStr s) = Returns (sublist k s)"
| "py_contains k _ = Raises TypeError"

text \<open>The truth value of \<^verbatim>\<open>if v:\<close>.\<close>

fun py_truthy :: "json \<Rightarrow> bool" where
  "py_truthy JNull = False"
| "py_truthy (JBool b) = b"
| "py_truthy (JInt i) = (i \<noteq> 0)"
| "py_truthy (JStr s) = (s \<noteq> [])"
| "py_truthy (JList xs) = (xs \<noteq> [])"
| "py_truthy (JDict kvs) = (kvs \<noteq> [])"

text \<open>
  \<^verbatim>\<open>for x in v\<close>: the elements of a list, the characters of a string, the keys of a
  dict; \<^verbatim>\<open>TypeError\<close> otherwise.
\<close>

fun py_iter :: "json \<Rightarrow> json list outcome" where
  "py_iter (JList xs) = Returns xs"
| "py_iter (JStr s) = Returns (map (\<lambda>c. JStr [c]) s)"
| "py_iter (JDict kvs) = Returns (map (\<lambda>kv. JStr (fst kv)) kvs)"
| "py_iter _ = Raises TypeError"

subsection \<open>Formatting\<close>

text \<open>Decimal digits of an integer, as \<^verbatim>\<open>%i\<close> and \<^verbatim>\<open>str\<close> print it.\<close>

definition digit_char :: "nat \<Rightarrow> char" where
  "digit_char n = ''0123456789'' ! n"

function show_nat :: "nat \<Rightarrow> string" where
  "show_nat n = (if n < 10 then [digit_char n] else show_nat (n div 10) @ [digit_char (n mod 10)])"
  by pat_completeness auto
termination
  by (relation "measure id") auto

declare show_nat.simps [simp del]

definition show_int :: "int \<Rightarrow> string" where
  "show_int i = (if i < 0 then CHR ''-'' # show_nat (nat (- i)) else show_nat (nat i))"

text \<open>
  \<^verbatim>\<open>repr\<close> of a string: single quotes unless the string has a single quote and no double
  quote; the quote and the backslash are escaped, tab, newline and return are written
  \<^verbatim>\<open>\t \n \r\<close>, and a character that is not printable is written \<^verbatim>\<open>\xhh\<close>.
\<close>

definition hex_char :: "nat \<Rightarrow> char" where
  "hex_char n = ''0123456789abcdef'' ! n"

definition py_printable :: "char \<Rightarrow> bool" where
  "py_printable c =
     (let n = (of_char c :: nat) in \<not> (n < 32 \<or> (127 \<le> n \<and> n \<le> 160) \<or> n = 173))"

definition repr_char :: "char \<Rightarrow> char \<Rightarrow> string" where
  "repr_char q c =
     (if c = q \<or> c = CHR 0x5C then [CHR 0x5C, c]
      else if c = CHR 0x09 then [CHR 0x5C, CHR ''t'']
      else if c = CHR 0x0A then [CHR 0x5C, CHR ''n'']
      else if c = CHR 0x0D then [CHR 0x5C, CHR ''r'']
      else if py_printable c then [c]
      else [CHR 0x5C, CHR ''x'', hex_char (of_char c div 16), hex_char (of_char c mod 16)])"

definition repr_str :: "string \<Rightarrow> string" where
  "repr_str s =
     (let q = (if CHR 0x27 \<in> set s \<and> CHR 0x22 \<notin> set s then CHR 0x22 else CHR 0x27)
      in [q] @ concat (map (repr_char q) s) @ [q])"

fun join :: "string \<Rightarrow> string list \<Rightarrow> string" where
  "join sep [] = []"
| "join sep [x] = x"
| "join sep (x # y # ys) = x @ sep @ join sep (y # ys)"

text \<open>
  \<^verbatim>\<open>repr(v)\<close>, and \<^verbatim>\<open>str(v)\<close>, which is what \<^verbatim>\<open>'%s' % v\<close> inserts: they differ on a
  string only.
\<close>

fun py_repr :: "json \<Rightarrow> string" where
  "py_repr JNull = ''None''"
| "py_repr (JBool b) = (if b then ''True'' else ''False'')"
| "py_repr (JInt i) = show_int i"
| "py_repr (JStr s) = repr_str s"
| "py_repr (JList xs) = ''['' @ join '', '' (map py_repr xs) @ '']''"
| "py_repr (JDict kvs) =
     ''{'' @ join '', '' (map (\<lambda>(k, v). repr_str k @ '': '' @ py_repr v) kvs) @ ''}''"

fun py_str :: "json \<Rightarrow> string" where
  "py_str (JStr s) = s"
| "py_str v = py_repr v"

text \<open>\<^verbatim>\<open>'%i' % v\<close>: an integer or a boolean; anything else raises \<^verbatim>\<open>TypeError\<close>.\<close>

fun py_format_i :: "json \<Rightarrow> string outcome" where
  "py_format_i (JInt i) = Returns (show_int i)"
| "py_format_i (JBool b) = Returns (if b then ''1'' else ''0'')"
| "py_format_i _ = Raises TypeError"

subsection \<open>\<^verbatim>\<open>pathlib.Path\<close> on a POSIX system\<close>

text \<open>
  \<^verbatim>\<open>str(Path(base, filename))\<close>, from the standard library: the segments are joined
  as \<^verbatim>\<open>posixpath.join\<close> joins them (an absolute segment discards what precedes it), the
  root is split off (\<^verbatim>\<open>posixpath.splitroot\<close>: exactly two leading slashes are kept,
  any other number is one), the rest is split at the slashes, empty and \<^verbatim>\<open>.\<close>
  components are dropped, and the path is printed as the root followed by the components
  joined by slashes, or \<^verbatim>\<open>.\<close> when nothing is left. The base path is a string here: the
  text of the path the caller passes.
\<close>

definition posixpath_join :: "string \<Rightarrow> string \<Rightarrow> string" where
  "posixpath_join a b =
     (if take 1 b = ''/'' then b
      else if a = [] \<or> last a = CHR ''/'' then a @ b
      else a @ ''/'' @ b)"

definition splitroot :: "string \<Rightarrow> string \<times> string" where
  "splitroot p =
     (if take 1 p \<noteq> ''/'' then ([], p)
      else if take 1 (drop 1 p) \<noteq> ''/'' \<or> take 1 (drop 2 p) = ''/'' then (''/'', drop 1 p)
      else (''//'', drop 2 p))"

fun split_sep :: "char \<Rightarrow> string \<Rightarrow> string list" where
  "split_sep sep [] = [[]]"
| "split_sep sep (c # cs) =
     (if c = sep then [] # split_sep sep cs
      else (case split_sep sep cs of [] \<Rightarrow> [[c]] | p # ps \<Rightarrow> (c # p) # ps))"

definition path_parts :: "string \<Rightarrow> string list" where
  "path_parts rel = filter (\<lambda>x. x \<noteq> [] \<and> x \<noteq> ''.'') (split_sep CHR ''/'' rel)"

definition Path_str :: "string \<Rightarrow> string \<Rightarrow> string" where
  "Path_str base filename =
     (case splitroot (posixpath_join base filename) of
        (root, rel) \<Rightarrow>
          if root \<noteq> [] then root @ join ''/'' (path_parts rel)
          else if path_parts rel = [] then ''.''
          else join ''/'' (path_parts rel))"

text \<open>\<^verbatim>\<open>Path(base, filename)\<close> accepts a string; any other JSON value raises \<^verbatim>\<open>TypeError\<close>.\<close>

fun Path :: "string \<Rightarrow> json \<Rightarrow> string outcome" where
  "Path base (JStr filename) = Returns (Path_str base filename)"
| "Path base _ = Raises TypeError"

section \<open>The dumper\<close>

text \<open>
  \<^verbatim>\<open>GccStyleDumper\<close> has three attributes. \<^verbatim>\<open>dst_file\<close> is the file written to; it
  is modelled by the text written to it so far. A method takes the dumper and gives the
  dumper as the call leaves it, with \<^verbatim>\<open>Returns\<close> or with the exception that propagates
  out of the call: what was written and assigned before a \<^verbatim>\<open>raise\<close> stays.
\<close>

record GccStyleDumper =
  dst_file :: string
  base_path :: string
  last_logical_location :: json

type_synonym 'a action = "GccStyleDumper \<Rightarrow> 'a outcome \<times> GccStyleDumper"

definition ret :: "'a \<Rightarrow> 'a action" where
  "ret x d = (Returns x, d)"

text \<open>The value of an expression that reads no attribute: the dumper is untouched.\<close>

definition eval :: "'a outcome \<Rightarrow> 'a action" where
  "eval r d = (r, d)"

text \<open>Sequencing: an exception of the first part skips the second.\<close>

definition bnd :: "'a action \<Rightarrow> ('a \<Rightarrow> 'b action) \<Rightarrow> 'b action" where
  "bnd m f d = (case m d of (Raises e, d') \<Rightarrow> (Raises e, d') | (Returns x, d') \<Rightarrow> f x d')"

text \<open>A \<^verbatim>\<open>for\<close> loop over the elements, and one over \<^verbatim>\<open>enumerate\<close>.\<close>

fun for_each :: "(json \<Rightarrow> unit action) \<Rightarrow> json list \<Rightarrow> unit action" where
  "for_each body [] = ret ()"
| "for_each body (x # xs) = bnd (body x) (\<lambda>_. for_each body xs)"

fun for_enumerate :: "(nat \<Rightarrow> json \<Rightarrow> unit action) \<Rightarrow> nat \<Rightarrow> json list \<Rightarrow> unit action" where
  "for_enumerate body idx [] = ret ()"
| "for_enumerate body idx (x # xs) = bnd (body idx x) (\<lambda>_. for_enumerate body (Suc idx) xs)"

definition GccStyleDumper_init :: "string \<Rightarrow> string \<Rightarrow> GccStyleDumper" where
  "GccStyleDumper_init dst bp =
     \<lparr>dst_file = dst, base_path = bp, last_logical_location = JNull\<rparr>"

text \<open>
  \<^verbatim>\<open>write\<close>, which is \<^verbatim>\<open>self.dst_file.write(text)\<close>: a text file takes a string and
  nothing else.
\<close>

fun write_text :: "json \<Rightarrow> unit action" where
  "write_text (JStr text) d = (Returns (), d\<lparr>dst_file := dst_file d @ text\<rparr>)"
| "write_text _ d = (Raises TypeError, d)"

definition writeln :: "unit action" where
  "writeln = write_text (JStr [CHR 0x0A])"

text \<open>Reading and assigning the attributes.\<close>

definition get_base_path :: "string action" where
  "get_base_path d = (Returns (base_path d), d)"

definition get_last_logical_location :: "json action" where
  "get_last_logical_location d = (Returns (last_logical_location d), d)"

definition set_last_logical_location :: "json \<Rightarrow> unit action" where
  "set_last_logical_location v d = (Returns (), d\<lparr>last_logical_location := v\<rparr>)"

definition write_logical_location :: "json \<Rightarrow> unit action" where
  "write_logical_location logicalLocation =
     bnd get_last_logical_location (\<lambda>last_seen.
     if py_eq logicalLocation last_seen then ret ()
     else
       bnd (set_last_logical_location logicalLocation) (\<lambda>_.
       bnd (eval (py_getitem logicalLocation ''kind'')) (\<lambda>kind.
       if py_eq kind (JStr ''function'') then
         bnd (eval (py_getitem logicalLocation ''fullyQualifiedName'')) (\<lambda>name.
         bnd (write_text (JStr (''In function '' @ [CHR 0x27] @ py_str name @ [CHR 0x27] @ '':''))) (\<lambda>_.
         writeln))
       else ret ())))"

definition write_physical_location :: "json \<Rightarrow> unit action" where
  "write_physical_location physicalLocation =
     bnd (eval (py_getitem physicalLocation ''artifactLocation'')) (\<lambda>artifactLocation.
     bnd (eval (py_getitem artifactLocation ''uri'')) (\<lambda>filename.
     bnd (eval (py_getitem physicalLocation ''region'')) (\<lambda>region.
     bnd get_base_path (\<lambda>bp.
     bnd (eval (Path bp filename)) (\<lambda>path.
     bnd (eval (py_getitem region ''startLine'')) (\<lambda>startLine.
     bnd (eval (py_format_i startLine)) (\<lambda>line.
     bnd (write_text (JStr (path @ '':'' @ line @ '':''))) (\<lambda>_.
     bnd (eval (py_contains ''startColumn'' region)) (\<lambda>has_column.
     bnd (if has_column then
            bnd (eval (py_getitem physicalLocation ''region'')) (\<lambda>region'.
            bnd (eval (py_getitem region' ''startColumn'')) (\<lambda>startColumn.
            bnd (eval (py_format_i startColumn)) (\<lambda>column.
            write_text (JStr (column @ '':'')))))
          else ret ()) (\<lambda>_.
     write_text (JStr '' '')))))))))))"

definition write_location :: "json \<Rightarrow> unit action" where
  "write_location location =
     bnd (eval (py_contains ''logicalLocations'' location)) (\<lambda>has_logical.
     bnd (if has_logical then
            bnd (eval (py_getitem location ''logicalLocations'')) (\<lambda>logicalLocations.
            if py_truthy logicalLocations then
              bnd (eval (py_getitem location ''logicalLocations'')) (\<lambda>logicalLocations'.
              bnd (eval (py_item0 logicalLocations')) (\<lambda>logicalLocation.
              write_logical_location logicalLocation))
            else ret ())
          else ret ()) (\<lambda>_.
     bnd (eval (py_contains ''physicalLocation'' location)) (\<lambda>has_physical.
     if has_physical then
       bnd (eval (py_getitem location ''physicalLocation'')) (\<lambda>physicalLocation.
       write_physical_location physicalLocation)
     else ret ())))"

definition write_reporting_descriptor_reference :: "json \<Rightarrow> unit action" where
  "write_reporting_descriptor_reference rdr =
     bnd (eval (py_contains ''toolComponent'' rdr)) (\<lambda>has_component.
     if has_component then
       bnd (eval (py_getitem rdr ''toolComponent'')) (\<lambda>toolComponent.
       bnd (eval (py_getitem toolComponent ''name'')) (\<lambda>name.
       if py_eq name (JStr ''cwe'') then
         bnd (eval (py_getitem rdr ''id'')) (\<lambda>ident.
         write_text (JStr ('' [CWE-'' @ py_str ident @ '']'')))
       else ret ()))
     else ret ())"

definition write_thread_flow_location :: "nat \<Rightarrow> json \<Rightarrow> unit action" where
  "write_thread_flow_location idx threadFlowLocation =
     bnd (eval (py_getitem threadFlowLocation ''location'')) (\<lambda>location.
     bnd (write_location location) (\<lambda>_.
     bnd (write_text (JStr (''('' @ show_nat (idx + 1) @ '') ''))) (\<lambda>_.
     bnd (eval (py_getitem threadFlowLocation ''location'')) (\<lambda>location'.
     bnd (eval (py_getitem location' ''message'')) (\<lambda>message.
     bnd (eval (py_getitem message ''text'')) (\<lambda>text.
     bnd (write_text text) (\<lambda>_.
     writeln)))))))"

definition write_thread_flow :: "json \<Rightarrow> unit action" where
  "write_thread_flow threadFlow =
     bnd (eval (py_getitem threadFlow ''locations'')) (\<lambda>locations.
     bnd (eval (py_iter locations)) (\<lambda>locs.
     for_enumerate write_thread_flow_location 0 locs))"

definition write_code_flow :: "json \<Rightarrow> unit action" where
  "write_code_flow codeFlow =
     bnd (eval (py_getitem codeFlow ''threadFlows'')) (\<lambda>threadFlows.
     bnd (eval (py_item0 threadFlows)) (\<lambda>threadFlow.
     write_thread_flow threadFlow))"

definition dump_sarif_result :: "json \<Rightarrow> unit action" where
  "dump_sarif_result result =
     bnd (eval (py_contains ''locations'' result)) (\<lambda>has_locations.
     bnd (if has_locations then
            bnd (eval (py_getitem result ''locations'')) (\<lambda>locations.
            bnd (eval (py_item0 locations)) (\<lambda>loc.
            write_location loc))
          else ret ()) (\<lambda>_.
     bnd (eval (py_contains ''level'' result)) (\<lambda>has_level.
     bnd (if has_level then
            bnd (eval (py_getitem result ''level'')) (\<lambda>level.
            write_text (JStr (py_str level @ '': '')))
          else ret ()) (\<lambda>_.
     bnd (eval (py_getitem result ''message'')) (\<lambda>message.
     bnd (eval (py_getitem message ''text'')) (\<lambda>text.
     bnd (write_text (JStr (py_str text))) (\<lambda>_.
     bnd (eval (py_contains ''taxa'' result)) (\<lambda>has_taxa.
     bnd (if has_taxa then
            bnd (eval (py_getitem result ''taxa'')) (\<lambda>taxa.
            bnd (eval (py_iter taxa)) (\<lambda>rdrs.
            for_each write_reporting_descriptor_reference rdrs))
          else ret ()) (\<lambda>_.
     bnd (eval (py_contains ''ruleId'' result)) (\<lambda>has_rule.
     bnd (if has_rule then
            bnd (eval (py_getitem result ''ruleId'')) (\<lambda>ruleId.
            write_text (JStr ('' ['' @ py_str ruleId @ '']'')))
          else ret ()) (\<lambda>_.
     bnd writeln (\<lambda>_.
     bnd (eval (py_contains ''codeFlows'' result)) (\<lambda>has_flows.
     if has_flows then
       bnd (eval (py_getitem result ''codeFlows'')) (\<lambda>codeFlows.
       bnd (eval (py_item0 codeFlows)) (\<lambda>codeFlow.
       write_code_flow codeFlow))
     else ret ())))))))))))))"

text \<open>
  \<^verbatim>\<open>dump_sarif_file\<close> loops over \<^verbatim>\<open>sarif_file.get_results()\<close>. The loader is a library
  outside this program; the list of results it returns is the argument here.
\<close>

definition dump_sarif_file :: "json list \<Rightarrow> unit action" where
  "dump_sarif_file results = for_each dump_sarif_result results"

section \<open>What the specification says of the state\<close>

text \<open>
  The specification describes \<^verbatim>\<open>last logical location\<close> without the code's control flow:
  it is the most recent logical location met that differed from the one stored. One step
  of that description is \<open>remember\<close>; the logical locations a document holds, in the order
  the traversal visits them, are \<open>encountered_in_document\<close>: for each result the first
  logical location of its first location, then the first logical location of the location
  of each step of the first thread flow of its first code flow. \<open>on_value\<close> follows a
  subscript where the document has it and finds nothing where it has not.
\<close>

definition remember :: "json \<Rightarrow> json \<Rightarrow> json" where
  "remember stored ll = (if py_eq ll stored then stored else ll)"

definition on_value :: "'a outcome \<Rightarrow> ('a \<Rightarrow> json list) \<Rightarrow> json list" where
  "on_value r f = (case r of Returns x \<Rightarrow> f x | Raises e \<Rightarrow> [])"

definition encountered_in_location :: "json \<Rightarrow> json list" where
  "encountered_in_location location =
     on_value (py_getitem location ''logicalLocations'') (\<lambda>lls.
       if py_truthy lls then on_value (py_item0 lls) (\<lambda>ll. [ll]) else [])"

definition encountered_in_steps :: "json list \<Rightarrow> json list" where
  "encountered_in_steps steps =
     concat (map (\<lambda>step. on_value (py_getitem step ''location'') encountered_in_location) steps)"

definition encountered_in_thread_flow :: "json \<Rightarrow> json list" where
  "encountered_in_thread_flow thread =
     on_value (py_getitem thread ''locations'') (\<lambda>locs.
       on_value (py_iter locs) encountered_in_steps)"

definition encountered_in_code_flow :: "json \<Rightarrow> json list" where
  "encountered_in_code_flow flow =
     on_value (py_getitem flow ''threadFlows'') (\<lambda>threads.
       on_value (py_item0 threads) encountered_in_thread_flow)"

definition encountered_in_result :: "json \<Rightarrow> json list" where
  "encountered_in_result result =
     on_value (py_getitem result ''locations'') (\<lambda>locs.
       on_value (py_item0 locs) encountered_in_location) @
     on_value (py_getitem result ''codeFlows'') (\<lambda>flows.
       on_value (py_item0 flows) encountered_in_code_flow)"

definition encountered_in_document :: "json list \<Rightarrow> json list" where
  "encountered_in_document results = concat (map encountered_in_result results)"

text \<open>
  \<open>tracks m lls\<close>: whatever the dumper was, after \<open>m\<close> the stored logical location is the
  one \<open>remember\<close> gives over the logical locations \<open>lls\<close>, all of them when \<open>m\<close> returns
  and those met before the exception when it raises.
\<close>

definition tracks :: "'a action \<Rightarrow> json list \<Rightarrow> bool" where
  "tracks m lls =
     (\<forall>d. \<exists>met. prefix met lls \<and>
        last_logical_location (snd (m d)) = foldl remember (last_logical_location d) met \<and>
        ((\<exists>x. fst (m d) = Returns x) \<longrightarrow> met = lls))"

text \<open>
  What a method does when the file is empty: its outcome, the text it writes and the
  logical location it leaves stored. \<open>appends m\<close>: from any dumper \<open>m\<close> does just that,
  after the text already in the file, and touches nothing else.
\<close>

definition run_from :: "'a action \<Rightarrow> string \<Rightarrow> json \<Rightarrow> 'a outcome \<times> string \<times> json" where
  "run_from m bp stored =
     (case m \<lparr>dst_file = [], base_path = bp, last_logical_location = stored\<rparr> of
        (r, d') \<Rightarrow> (r, dst_file d', last_logical_location d'))"

definition appends :: "'a action \<Rightarrow> bool" where
  "appends m =
     (\<forall>d. m d =
        (case run_from m (base_path d) (last_logical_location d) of
           (r, w, stored) \<Rightarrow> (r, d\<lparr>dst_file := dst_file d @ w, last_logical_location := stored\<rparr>)))"

text \<open>The text a fresh dumper writes for a document.\<close>

definition rendered :: "json list \<Rightarrow> string \<Rightarrow> string" where
  "rendered results bp = fst (snd (run_from (dump_sarif_file results) bp JNull))"

text \<open>
  A dict without one of its keys, and the claim on taxonomy references in the
  specification's words: the reference names the tool component \<^verbatim>\<open>cwe\<close>.
\<close>

definition dict_without :: "string \<Rightarrow> (string \<times> json) list \<Rightarrow> (string \<times> json) list" where
  "dict_without k kvs = filter (\<lambda>kv. fst kv \<noteq> k) kvs"

definition names_cwe :: "json \<Rightarrow> bool" where
  "names_cwe rdr =
     (case py_getitem rdr ''toolComponent'' of
        Raises e \<Rightarrow> False
      | Returns component \<Rightarrow>
          (case py_getitem component ''name'' of
             Raises e \<Rightarrow> False
           | Returns name \<Rightarrow> py_eq name (JStr ''cwe'')))"

section \<open>Example documents\<close>

text \<open>The result of the end-to-end scenario, and a base path to render it under.\<close>

definition scenario_result :: "(string \<times> json) list" where
  "scenario_result =
     [(''ruleId'', JStr ''null-deref''),
      (''level'', JStr ''error''),
      (''message'', JDict [(''text'', JStr ''null pointer dereference'')]),
      (''locations'', JList [JDict [(''physicalLocation'', JDict
          [(''artifactLocation'', JDict [(''uri'', JStr ''foo.c'')]),
           (''region'', JDict [(''startLine'', JInt 42), (''startColumn'', JInt 5)])])]])]"

text \<open>
  Pieces for further examples: a logical location that is a function, a physical location
  with a line and no column, and a dumper as \<^verbatim>\<open>main\<close> constructs it for a document found in
  \<^verbatim>\<open>/src/proj\<close>.
\<close>

definition in_function :: "string \<Rightarrow> json" where
  "in_function name = JDict [(''kind'', JStr ''function''), (''fullyQualifiedName'', JStr name)]"

definition at_line :: "string \<Rightarrow> int \<Rightarrow> json" where
  "at_line uri line =
     JDict [(''artifactLocation'', JDict [(''uri'', JStr uri)]),
            (''region'', JDict [(''startLine'', JInt line)])]"

definition fresh_dumper :: GccStyleDumper where
  "fresh_dumper = GccStyleDumper_init [] ''/src/proj''"

text \<open>
  A result with a message whose first location is in a function, a trace step in a
  function, and a result given one code flow with one thread flow of such steps.
\<close>

definition result_in :: "string \<Rightarrow> string \<Rightarrow> (string \<times> json) list" where
  "result_in name msg =
     [(''message'', JDict [(''text'', JStr msg)]),
      (''locations'', JList [JDict [(''logicalLocations'', JList [in_function name])]])]"

definition step_in :: "string \<Rightarrow> string \<Rightarrow> json" where
  "step_in name msg =
     JDict [(''location'', JDict [(''logicalLocations'', JList [in_function name]),
                                 (''message'', JDict [(''text'', JStr msg)])])]"

definition with_steps :: "json list \<Rightarrow> (string \<times> json) list \<Rightarrow> (string \<times> json) list" where
  "with_steps steps result =
     (''codeFlows'', JList [JDict [(''threadFlows'', JList [JDict [(''locations'', JList steps)]])]])
       # result"

text \<open>A trace step that has a message and no position.\<close>

definition plain_step :: "string \<Rightarrow> json" where
  "plain_step msg = JDict [(''location'', JDict [(''message'', JDict [(''text'', JStr msg)])])]"

section \<open>Python's equality is an equivalence\<close>

lemma py_eq_dict_iff:
  "py_eq (JDict a) (JDict b) =
     (fst ` set a = fst ` set b \<and>
      (\<forall>k \<in> fst ` set a. \<exists>v w. map_of a k = Some v \<and> map_of b k = Some w \<and> py_eq v w))"
proof -
  have "(case map_of a k of None \<Rightarrow> False
         | Some v \<Rightarrow> (case map_of b k of None \<Rightarrow> False | Some w \<Rightarrow> py_eq v w)) =
        (\<exists>v w. map_of a k = Some v \<and> map_of b k = Some w \<and> py_eq v w)" for k
    by (simp split: option.splits)
  then show ?thesis
    by (simp add: list_all_iff)
qed

lemma py_eq_list_iff:
  "py_eq (JList xs) (JList ys) =
     (length xs = length ys \<and> (\<forall>i < length xs. py_eq (xs ! i) (ys ! i)))"
  by (simp add: list_all2_conv_all_nth)

declare py_eq.simps(7,8) [simp del]

lemma map_of_in_keys:
  assumes "k \<in> fst ` set a"
  obtains v where "map_of a k = Some v" and "(k, v) \<in> set a"
proof -
  from assms have "map_of a k \<noteq> None"
    by (simp add: map_of_eq_None_iff)
  then obtain v where v: "map_of a k = Some v"
    by auto
  then have "(k, v) \<in> set a"
    by (rule map_of_SomeD)
  with v show ?thesis
    by (rule that)
qed

lemma py_eq_dictI:
  assumes "fst ` set a = fst ` set b"
    and "\<And>k v. map_of a k = Some v \<Longrightarrow> \<exists>w. map_of b k = Some w \<and> py_eq v w"
  shows "py_eq (JDict a) (JDict b)"
  unfolding py_eq_dict_iff
proof (intro conjI ballI)
  show "fst ` set a = fst ` set b" by fact
next
  fix k assume "k \<in> fst ` set a"
  then obtain v where v: "map_of a k = Some v"
    by (rule map_of_in_keys)
  from assms(2) [OF v] obtain w where "map_of b k = Some w" "py_eq v w"
    by auto
  with v show "\<exists>v w. map_of a k = Some v \<and> map_of b k = Some w \<and> py_eq v w"
    by simp
qed



lemma py_eq_refl: "py_eq x x"
proof (induction x)
  case (JList xs)
  then show ?case by (simp add: py_eq_list_iff)
next
  case (JDict a)
  show ?case
  proof (rule py_eq_dictI)
    fix k v assume v: "map_of a k = Some v"
    then have "(k, v) \<in> set a"
      by (rule map_of_SomeD)
    then have "py_eq v v"
      by (rule JDict.IH) simp
    with v show "\<exists>w. map_of a k = Some w \<and> py_eq v w"
      by simp
  qed simp
qed simp_all




section \<open>Every method only appends to the file\<close>

named_theorems appends_intros

lemma appendsI:
  assumes "\<And>d. m d = (case run_from m (base_path d) (last_logical_location d) of
           (r, w, stored) \<Rightarrow> (r, d\<lparr>dst_file := dst_file d @ w, last_logical_location := stored\<rparr>))"
  shows "appends m"
  using assms by (simp add: appends_def)

lemma appendsD:
  assumes "appends m"
  shows "m d = (case run_from m (base_path d) (last_logical_location d) of
           (r, w, stored) \<Rightarrow> (r, d\<lparr>dst_file := dst_file d @ w, last_logical_location := stored\<rparr>))"
  using assms by (simp add: appends_def)

lemma appends_ret [appends_intros]: "appends (ret x)"
  by (simp add: appends_def run_from_def ret_def)

lemma appends_eval [appends_intros]: "appends (eval r)"
  by (simp add: appends_def run_from_def eval_def)

lemma appends_write_text [appends_intros]: "appends (write_text v)"
  by (cases v) (simp_all add: appends_def run_from_def)

lemma appends_writeln [appends_intros]: "appends writeln"
  by (simp add: writeln_def appends_write_text)

lemma appends_get_base_path [appends_intros]: "appends get_base_path"
  by (simp add: appends_def run_from_def get_base_path_def)

lemma appends_get_last_logical_location [appends_intros]: "appends get_last_logical_location"
  by (simp add: appends_def run_from_def get_last_logical_location_def)

lemma appends_set_last_logical_location [appends_intros]: "appends (set_last_logical_location v)"
  by (simp add: appends_def run_from_def set_last_logical_location_def)

lemma appends_bnd [appends_intros]:
  assumes m: "appends m" and f: "\<And>x. appends (f x)"
  shows "appends (bnd m f)"
proof (rule appendsI)
  fix d :: GccStyleDumper
  define d0 where "d0 = \<lparr>dst_file = [], base_path = base_path d, last_logical_location = last_logical_location d\<rparr>"
  obtain r w l where run: "run_from m (base_path d) (last_logical_location d) = (r, w, l)"
    by (cases "run_from m (base_path d) (last_logical_location d)") auto
  have md: "m d = (r, d\<lparr>dst_file := dst_file d @ w, last_logical_location := l\<rparr>)"
    using appendsD [OF m, of d] run by simp
  have md0: "m d0 = (r, d0\<lparr>dst_file := w, last_logical_location := l\<rparr>)"
    using appendsD [OF m, of d0] run by (simp add: d0_def)
  show "bnd m f d = (case run_from (bnd m f) (base_path d) (last_logical_location d) of
           (r, w, stored) \<Rightarrow> (r, d\<lparr>dst_file := dst_file d @ w, last_logical_location := stored\<rparr>))"
  proof (cases r)
    case (Raises e)
    with md md0 show ?thesis
      by (simp add: bnd_def run_from_def d0_def [symmetric])
  next
    case (Returns x)
    obtain r2 w2 l2 where run2: "run_from (f x) (base_path d) l = (r2, w2, l2)"
      by (cases "run_from (f x) (base_path d) l") auto
    have "f x (d\<lparr>dst_file := dst_file d @ w, last_logical_location := l\<rparr>) =
        (r2, d\<lparr>dst_file := dst_file d @ w @ w2, last_logical_location := l2\<rparr>)"
      using appendsD [OF f, of x "d\<lparr>dst_file := dst_file d @ w, last_logical_location := l\<rparr>"] run2
      by simp
    moreover have "f x (d0\<lparr>dst_file := w, last_logical_location := l\<rparr>) =
        (r2, d0\<lparr>dst_file := w @ w2, last_logical_location := l2\<rparr>)"
      using appendsD [OF f, of x "d0\<lparr>dst_file := w, last_logical_location := l\<rparr>"] run2
      by (simp add: d0_def)
    ultimately show ?thesis
      using Returns md md0
      by (simp add: bnd_def run_from_def d0_def [symmetric])
  qed
qed

lemma appends_if [appends_intros]:
  "appends a \<Longrightarrow> appends b \<Longrightarrow> appends (if c then a else b)"
  by simp

lemma appends_for_each [appends_intros]:
  assumes "\<And>x. appends (body x)"
  shows "appends (for_each body xs)"
  by (induction xs) (auto intro: appends_intros assms)

lemma appends_for_enumerate [appends_intros]:
  assumes "\<And>i x. appends (body i x)"
  shows "appends (for_enumerate body idx xs)"
  by (induction xs arbitrary: idx) (auto intro: appends_intros assms)

lemma appends_write_logical_location [appends_intros]: "appends (write_logical_location ll)"
  unfolding write_logical_location_def by (intro appends_intros)

lemma appends_write_physical_location [appends_intros]: "appends (write_physical_location pl)"
  unfolding write_physical_location_def by (intro appends_intros)

lemma appends_write_location [appends_intros]: "appends (write_location loc)"
  unfolding write_location_def by (intro appends_intros)

lemma appends_write_reporting_descriptor_reference [appends_intros]:
  "appends (write_reporting_descriptor_reference rdr)"
  unfolding write_reporting_descriptor_reference_def by (intro appends_intros)

lemma appends_write_thread_flow_location [appends_intros]:
  "appends (write_thread_flow_location idx tfl)"
  unfolding write_thread_flow_location_def by (intro appends_intros)

lemma appends_write_thread_flow [appends_intros]: "appends (write_thread_flow tf)"
  unfolding write_thread_flow_def by (intro appends_intros)

lemma appends_write_code_flow [appends_intros]: "appends (write_code_flow cf)"
  unfolding write_code_flow_def by (intro appends_intros)

lemma appends_dump_sarif_result [appends_intros]: "appends (dump_sarif_result result)"
  unfolding dump_sarif_result_def by (intro appends_intros)

lemma appends_dump_sarif_file: "appends (dump_sarif_file results)"
  unfolding dump_sarif_file_def by (intro appends_intros)


section \<open>The stored logical location follows the traversal\<close>

lemma bnd_eval_Returns: "bnd (eval (Returns x)) f = f x"
  by (rule ext) (simp add: bnd_def eval_def)

lemma bnd_eval_Raises: "bnd (eval (Raises e)) f = eval (Raises e)"
  by (rule ext) (simp add: bnd_def eval_def)

lemma bnd_ret: "bnd (ret x) f = f x"
  by (rule ext) (simp add: bnd_def ret_def)

named_theorems silent_intros

lemma tracksI:
  assumes "\<And>d. \<exists>met. prefix met lls \<and>
        last_logical_location (snd (m d)) = foldl remember (last_logical_location d) met \<and>
        ((\<exists>x. fst (m d) = Returns x) \<longrightarrow> met = lls)"
  shows "tracks m lls"
  using assms by (simp add: tracks_def)

lemma tracksD:
  assumes "tracks m lls"
  shows "\<exists>met. prefix met lls \<and>
        last_logical_location (snd (m d)) = foldl remember (last_logical_location d) met \<and>
        ((\<exists>x. fst (m d) = Returns x) \<longrightarrow> met = lls)"
  using assms by (simp add: tracks_def)

lemma tracks_silent:
  assumes "\<And>d. last_logical_location (snd (m d)) = last_logical_location d"
  shows "tracks m []"
  by (rule tracksI) (simp add: assms)

lemma tracks_raises: "tracks (eval (Raises e)) lls"
proof (rule tracksI)
  fix d :: GccStyleDumper
  have "prefix [] lls \<and>
      last_logical_location (snd (eval (Raises e) d)) = foldl remember (last_logical_location d) [] \<and>
      ((\<exists>x. fst (eval (Raises e) d) = Returns x) \<longrightarrow> [] = lls)"
    by (simp add: eval_def)
  then show "\<exists>met. prefix met lls \<and>
      last_logical_location (snd (eval (Raises e) d)) = foldl remember (last_logical_location d) met \<and>
      ((\<exists>x. fst (eval (Raises e) d) = Returns x) \<longrightarrow> met = lls)"
    by (rule exI)
qed

lemma silent_ret [silent_intros]: "tracks (ret x) []"
  by (rule tracks_silent) (simp add: ret_def)

lemma silent_eval [silent_intros]: "tracks (eval r) []"
  by (rule tracks_silent) (simp add: eval_def)

lemma silent_write_text [silent_intros]: "tracks (write_text v) []"
  by (rule tracks_silent) (cases v; simp)

lemma silent_writeln [silent_intros]: "tracks writeln []"
  by (simp add: writeln_def silent_write_text)

lemma silent_get_base_path [silent_intros]: "tracks get_base_path []"
  by (rule tracks_silent) (simp add: get_base_path_def)

lemma tracks_bnd:
  assumes m: "tracks m l1" and f: "\<And>x. tracks (f x) l2"
  shows "tracks (bnd m f) (l1 @ l2)"
proof (rule tracksI)
  fix d
  obtain r d1 where md: "m d = (r, d1)"
    by (cases "m d")
  from tracksD [OF m, of d] obtain met1 where met1: "prefix met1 l1"
    "last_logical_location (snd (m d)) = foldl remember (last_logical_location d) met1"
    "(\<exists>x. fst (m d) = Returns x) \<longrightarrow> met1 = l1"
    by blast
  show "\<exists>met. prefix met (l1 @ l2) \<and>
      last_logical_location (snd (bnd m f d)) = foldl remember (last_logical_location d) met \<and>
      ((\<exists>x. fst (bnd m f d) = Returns x) \<longrightarrow> met = l1 @ l2)"
  proof (cases r)
    case (Raises e)
    with md met1 have "prefix met1 (l1 @ l2) \<and>
      last_logical_location (snd (bnd m f d)) = foldl remember (last_logical_location d) met1 \<and>
      ((\<exists>x. fst (bnd m f d) = Returns x) \<longrightarrow> met1 = l1 @ l2)"
      by (simp add: bnd_def prefix_prefix)
    then show ?thesis
      by (rule exI)
  next
    case (Returns x)
    with md met1(3) have eq1: "met1 = l1"
      by simp
    from tracksD [OF f, of x d1] obtain met2 where met2: "prefix met2 l2"
      "last_logical_location (snd (f x d1)) = foldl remember (last_logical_location d1) met2"
      "(\<exists>y. fst (f x d1) = Returns y) \<longrightarrow> met2 = l2"
      by blast
    from md Returns have run: "bnd m f d = f x d1"
      by (simp add: bnd_def)
    from md met1(2) eq1 have "last_logical_location d1 = foldl remember (last_logical_location d) l1"
      by simp
    with met2 run have "prefix (l1 @ met2) (l1 @ l2) \<and>
      last_logical_location (snd (bnd m f d)) = foldl remember (last_logical_location d) (l1 @ met2) \<and>
      ((\<exists>x. fst (bnd m f d) = Returns x) \<longrightarrow> l1 @ met2 = l1 @ l2)"
      by auto
    then show ?thesis
      by (rule exI)
  qed
qed

lemma silent_bnd [silent_intros]:
  assumes "tracks m []" and "\<And>x. tracks (f x) []"
  shows "tracks (bnd m f) []"
  using tracks_bnd [OF assms] by simp

lemma tracks_after_silent:
  assumes "tracks m []" and "\<And>x. tracks (f x) lls"
  shows "tracks (bnd m f) lls"
  using tracks_bnd [OF assms] by simp

lemma tracks_then_silent:
  assumes "tracks m lls" and "\<And>x. tracks (f x) []"
  shows "tracks (bnd m f) lls"
  using tracks_bnd [OF assms] by simp

lemma tracks_bnd_eval:
  assumes "\<And>x. r = Returns x \<Longrightarrow> tracks (f x) lls"
  shows "tracks (bnd (eval r) f) lls"
proof (cases r)
  case (Returns x)
  with assms show ?thesis
    by (simp add: bnd_eval_Returns)
next
  case (Raises e)
  then show ?thesis
    by (simp add: bnd_eval_Raises tracks_raises)
qed

lemma tracks_bnd_on_value:
  assumes "\<And>x. r = Returns x \<Longrightarrow> tracks (f x) (l x)"
  shows "tracks (bnd (eval r) f) (on_value r l)"
proof (rule tracks_bnd_eval)
  fix x assume r: "r = Returns x"
  with assms show "tracks (f x) (on_value r l)"
    by (simp add: on_value_def)
qed

lemma silent_if [silent_intros]:
  "tracks a [] \<Longrightarrow> tracks b [] \<Longrightarrow> tracks (if c then a else b) []"
  by simp

lemma silent_for_each [silent_intros]:
  assumes "\<And>x. tracks (body x) []"
  shows "tracks (for_each body xs) []"
  by (induction xs) (auto intro: silent_intros assms)

lemma tracks_for_each:
  assumes "\<And>x. tracks (body x) (l x)"
  shows "tracks (for_each body xs) (concat (map l xs))"
proof (induction xs)
  case Nil
  show ?case by (simp add: silent_ret)
next
  case (Cons x xs)
  have "tracks (bnd (body x) (\<lambda>_. for_each body xs)) (l x @ concat (map l xs))"
    by (rule tracks_bnd) (rule assms, rule Cons.IH)
  then show ?case by simp
qed

lemma tracks_for_enumerate:
  assumes "\<And>i x. tracks (body i x) (l x)"
  shows "tracks (for_enumerate body idx xs) (concat (map l xs))"
proof (induction xs arbitrary: idx)
  case Nil
  show ?case by (simp add: silent_ret)
next
  case (Cons x xs)
  have "tracks (bnd (body idx x) (\<lambda>_. for_enumerate body (Suc idx) xs)) (l x @ concat (map l xs))"
    by (rule tracks_bnd) (rule assms, rule Cons.IH)
  then show ?case by simp
qed

lemma silent_write_physical_location [silent_intros]: "tracks (write_physical_location pl) []"
  unfolding write_physical_location_def by (intro silent_intros)

lemma silent_write_reporting_descriptor_reference [silent_intros]:
  "tracks (write_reporting_descriptor_reference rdr) []"
  unfolding write_reporting_descriptor_reference_def by (intro silent_intros)

lemma write_logical_location_stored:
  "last_logical_location (snd (write_logical_location ll d)) = remember (last_logical_location d) ll"
  by (simp add: write_logical_location_def bnd_def get_last_logical_location_def
      set_last_logical_location_def ret_def eval_def writeln_def remember_def
      split: outcome.splits)

lemma tracks_write_logical_location: "tracks (write_logical_location ll) [ll]"
proof (rule tracksI)
  fix d
  have "prefix [ll] [ll] \<and>
      last_logical_location (snd (write_logical_location ll d)) =
        foldl remember (last_logical_location d) [ll] \<and>
      ((\<exists>x. fst (write_logical_location ll d) = Returns x) \<longrightarrow> [ll] = [ll])"
    by (simp add: write_logical_location_stored)
  then show "\<exists>met. prefix met [ll] \<and>
      last_logical_location (snd (write_logical_location ll d)) =
        foldl remember (last_logical_location d) met \<and>
      ((\<exists>x. fst (write_logical_location ll d) = Returns x) \<longrightarrow> met = [ll])"
    by (rule exI)
qed

lemma absent_on_value:
  "py_contains k v = Returns False \<Longrightarrow> on_value (py_getitem v k) f = []"
  by (cases v) (simp_all add: on_value_def)

lemma tracks_write_location: "tracks (write_location location) (encountered_in_location location)"
  unfolding write_location_def
proof (rule tracks_bnd_eval)
  fix has_logical
  assume has: "py_contains ''logicalLocations'' location = Returns has_logical"
  let ?logical = "bnd (eval (py_getitem location ''logicalLocations'')) (\<lambda>logicalLocations.
            if py_truthy logicalLocations then
              bnd (eval (py_getitem location ''logicalLocations'')) (\<lambda>logicalLocations'.
              bnd (eval (py_item0 logicalLocations')) (\<lambda>logicalLocation.
              write_logical_location logicalLocation))
            else ret ())"
  have logical: "tracks ?logical (encountered_in_location location)"
    unfolding encountered_in_location_def
  proof (rule tracks_bnd_on_value)
    fix lls
    assume lls: "py_getitem location ''logicalLocations'' = Returns lls"
    show "tracks (if py_truthy lls then
              bnd (eval (py_getitem location ''logicalLocations'')) (\<lambda>logicalLocations'.
              bnd (eval (py_item0 logicalLocations')) (\<lambda>logicalLocation.
              write_logical_location logicalLocation))
            else ret ())
          (if py_truthy lls then on_value (py_item0 lls) (\<lambda>ll. [ll]) else [])"
    proof (cases "py_truthy lls")
      case True
      have "tracks (bnd (eval (py_item0 lls)) write_logical_location) (on_value (py_item0 lls) (\<lambda>ll. [ll]))"
        by (rule tracks_bnd_on_value) (rule tracks_write_logical_location)
      with True lls show ?thesis
        by (simp add: bnd_eval_Returns)
    next
      case False
      then show ?thesis
        by (simp add: silent_ret)
    qed
  qed
  have first: "tracks (if has_logical then ?logical else ret ()) (encountered_in_location location)"
  proof (cases has_logical)
    case True
    with logical show ?thesis by simp
  next
    case False
    with has have "encountered_in_location location = []"
      unfolding encountered_in_location_def by (simp add: absent_on_value)
    with False show ?thesis
      by (simp add: silent_ret)
  qed
  show "tracks (bnd (if has_logical then ?logical else ret ()) (\<lambda>_.
     bnd (eval (py_contains ''physicalLocation'' location)) (\<lambda>has_physical.
     if has_physical then
       bnd (eval (py_getitem location ''physicalLocation'')) (\<lambda>physicalLocation.
       write_physical_location physicalLocation)
     else ret ()))) (encountered_in_location location)"
    by (rule tracks_then_silent [OF first]) (intro silent_intros)
qed


lemma tracks_guarded:
  assumes "\<And>v. py_getitem obj k = Returns v \<Longrightarrow> tracks (f v) (l v)"
  shows "tracks (bnd (eval (py_contains k obj)) (\<lambda>has.
           if has then bnd (eval (py_getitem obj k)) f else ret ()))
         (on_value (py_getitem obj k) l)"
proof (rule tracks_bnd_eval)
  fix has assume has: "py_contains k obj = Returns has"
  show "tracks (if has then bnd (eval (py_getitem obj k)) f else ret ()) (on_value (py_getitem obj k) l)"
  proof (cases has)
    case True
    have "tracks (bnd (eval (py_getitem obj k)) f) (on_value (py_getitem obj k) l)"
      by (rule tracks_bnd_on_value) (rule assms)
    with True show ?thesis by simp
  next
    case False
    with has show ?thesis
      by (simp add: absent_on_value silent_ret)
  qed
qed

lemma tracks_guarded_then:
  assumes "\<And>v. py_getitem obj k = Returns v \<Longrightarrow> tracks (f v) (l v)"
    and "\<And>u. tracks (rest u) lls"
  shows "tracks (bnd (eval (py_contains k obj)) (\<lambda>has.
           bnd (if has then bnd (eval (py_getitem obj k)) f else ret ()) rest))
         (on_value (py_getitem obj k) l @ lls)"
proof (rule tracks_bnd_eval)
  fix has assume has: "py_contains k obj = Returns has"
  have "tracks (if has then bnd (eval (py_getitem obj k)) f else ret ()) (on_value (py_getitem obj k) l)"
  proof (cases has)
    case True
    have "tracks (bnd (eval (py_getitem obj k)) f) (on_value (py_getitem obj k) l)"
      by (rule tracks_bnd_on_value) (rule assms)
    with True show ?thesis by simp
  next
    case False
    with has show ?thesis
      by (simp add: absent_on_value silent_ret)
  qed
  then show "tracks (bnd (if has then bnd (eval (py_getitem obj k)) f else ret ()) rest)
      (on_value (py_getitem obj k) l @ lls)"
    by (rule tracks_bnd) (rule assms)
qed

lemma tracks_write_thread_flow_location:
  "tracks (write_thread_flow_location idx step)
     (on_value (py_getitem step ''location'') encountered_in_location)"
  unfolding write_thread_flow_location_def
proof (rule tracks_bnd_on_value)
  fix location
  show "tracks (bnd (write_location location) (\<lambda>_.
     bnd (write_text (JStr (''('' @ show_nat (idx + 1) @ '') ''))) (\<lambda>_.
     bnd (eval (py_getitem step ''location'')) (\<lambda>location'.
     bnd (eval (py_getitem location' ''message'')) (\<lambda>message.
     bnd (eval (py_getitem message ''text'')) (\<lambda>text.
     bnd (write_text text) (\<lambda>_.
     writeln))))))) (encountered_in_location location)"
    by (rule tracks_then_silent [OF tracks_write_location]) (intro silent_intros)
qed

lemma tracks_write_thread_flow:
  "tracks (write_thread_flow thread) (encountered_in_thread_flow thread)"
  unfolding write_thread_flow_def encountered_in_thread_flow_def encountered_in_steps_def
  by (intro tracks_bnd_on_value tracks_for_enumerate tracks_write_thread_flow_location)

lemma tracks_write_code_flow:
  "tracks (write_code_flow flow) (encountered_in_code_flow flow)"
  unfolding write_code_flow_def encountered_in_code_flow_def
  by (intro tracks_bnd_on_value tracks_write_thread_flow)

lemma tracks_dump_sarif_result:
  "tracks (dump_sarif_result result) (encountered_in_result result)"
  unfolding dump_sarif_result_def encountered_in_result_def
proof (rule tracks_guarded_then)
  fix locations
  show "tracks (bnd (eval (py_item0 locations)) write_location)
      (on_value (py_item0 locations) encountered_in_location)"
    by (rule tracks_bnd_on_value) (rule tracks_write_location)
next
  fix u :: unit
  have flows: "tracks (bnd (eval (py_contains ''codeFlows'' result)) (\<lambda>has_flows.
     if has_flows then
       bnd (eval (py_getitem result ''codeFlows'')) (\<lambda>codeFlows.
       bnd (eval (py_item0 codeFlows)) (\<lambda>codeFlow.
       write_code_flow codeFlow))
     else ret ()))
    (on_value (py_getitem result ''codeFlows'') (\<lambda>flows.
       on_value (py_item0 flows) encountered_in_code_flow))"
    by (rule tracks_guarded) (intro tracks_bnd_on_value tracks_write_code_flow)
  show "tracks (bnd (eval (py_contains ''level'' result)) (\<lambda>has_level.
     bnd (if has_level then
            bnd (eval (py_getitem result ''level'')) (\<lambda>level.
            write_text (JStr (py_str level @ '': '')))
          else ret ()) (\<lambda>_.
     bnd (eval (py_getitem result ''message'')) (\<lambda>message.
     bnd (eval (py_getitem message ''text'')) (\<lambda>text.
     bnd (write_text (JStr (py_str text))) (\<lambda>_.
     bnd (eval (py_contains ''taxa'' result)) (\<lambda>has_taxa.
     bnd (if has_taxa then
            bnd (eval (py_getitem result ''taxa'')) (\<lambda>taxa.
            bnd (eval (py_iter taxa)) (\<lambda>rdrs.
            for_each write_reporting_descriptor_reference rdrs))
          else ret ()) (\<lambda>_.
     bnd (eval (py_contains ''ruleId'' result)) (\<lambda>has_rule.
     bnd (if has_rule then
            bnd (eval (py_getitem result ''ruleId'')) (\<lambda>ruleId.
            write_text (JStr ('' ['' @ py_str ruleId @ '']'')))
          else ret ()) (\<lambda>_.
     bnd writeln (\<lambda>_.
     bnd (eval (py_contains ''codeFlows'' result)) (\<lambda>has_flows.
     if has_flows then
       bnd (eval (py_getitem result ''codeFlows'')) (\<lambda>codeFlows.
       bnd (eval (py_item0 codeFlows)) (\<lambda>codeFlow.
       write_code_flow codeFlow))
     else ret ()))))))))))))
    (on_value (py_getitem result ''codeFlows'') (\<lambda>flows.
       on_value (py_item0 flows) encountered_in_code_flow))"
    by (intro flows tracks_after_silent silent_intros)
qed

lemma tracks_dump_sarif_file:
  "tracks (dump_sarif_file results) (encountered_in_document results)"
  unfolding dump_sarif_file_def encountered_in_document_def
  by (rule tracks_for_each) (rule tracks_dump_sarif_result)


section \<open>A path below the base path\<close>

lemma split_sep_nonempty: "split_sep sep s \<noteq> []"
  by (induction s) (auto split: list.splits)

lemma split_sep_append:
  "split_sep sep (a @ sep # b) = split_sep sep a @ split_sep sep b"
  by (induction a) (auto split: list.splits simp: split_sep_nonempty)

lemma split_sep_plain: "sep \<notin> set s \<Longrightarrow> split_sep sep s = [s]"
  by (induction s) auto

lemma join_snoc: "xs \<noteq> [] \<Longrightarrow> join sep (xs @ [x]) = join sep xs @ sep @ x"
  by (induction sep xs rule: join.induct) auto

lemma path_parts_child:
  assumes "name \<noteq> []" "name \<noteq> ''.''" "CHR ''/'' \<notin> set name"
  shows "path_parts (rel @ CHR ''/'' # name) = path_parts rel @ [name]"
  using assms by (simp add: path_parts_def split_sep_append split_sep_plain)

lemma path_parts_slash: "path_parts (rel @ ''/'') = path_parts rel"
  using split_sep_append [of "CHR ''/''" rel "[]"] by (simp add: path_parts_def)

lemma path_parts_plain:
  assumes "name \<noteq> []" "name \<noteq> ''.''" "CHR ''/'' \<notin> set name"
  shows "path_parts name = [name]"
  using assms by (simp add: path_parts_def split_sep_plain)

lemma path_parts_after_slash:
  assumes "rel = [] \<or> last rel = CHR ''/''"
    and "name \<noteq> []" "name \<noteq> ''.''" "CHR ''/'' \<notin> set name"
  shows "path_parts (rel @ name) = path_parts rel @ [name]"
proof (cases "rel = []")
  case True
  with assms show ?thesis
    by (simp add: path_parts_plain) (simp add: path_parts_def)
next
  case False
  with assms(1) have rel: "rel = butlast rel @ ''/''"
    by (metis append_butlast_last_id)
  have "path_parts ((butlast rel @ ''/'') @ name) = path_parts (butlast rel @ ''/'') @ [name]"
    using path_parts_child [OF assms(2-4), of "butlast rel"] by (simp add: path_parts_slash)
  with rel show ?thesis
    by simp
qed

lemma splitroot_root: "fst (splitroot s) = [] \<or> fst (splitroot s) = ''/'' \<or> fst (splitroot s) = ''//''"
  by (simp add: splitroot_def)

lemma splitroot_rest:
  "snd (splitroot s) = s \<or> snd (splitroot s) = drop 1 s \<or> snd (splitroot s) = drop 2 s"
  by (simp add: splitroot_def)

lemma splitroot_append:
  assumes "s \<noteq> []" "last s = CHR ''/''" "name \<noteq> []" "hd name \<noteq> CHR ''/''"
  shows "splitroot (s @ name) = (fst (splitroot s), snd (splitroot s) @ name)"
proof -
  obtain n ns where name: "name = n # ns" "n \<noteq> CHR ''/''"
    using assms(3,4) by (cases name) auto
  consider a where "s = [a]" | a b where "s = [a, b]" | a b c t where "s = a # b # c # t"
    using assms(1) by (cases s rule: list.exhaust; simp) (metis list.exhaust)
  then show ?thesis
  proof cases
    case 1
    with assms(2) name show ?thesis by (simp add: splitroot_def)
  next
    case 2
    with assms(2) name show ?thesis by (simp add: splitroot_def)
  next
    case 3
    with name show ?thesis by (simp add: splitroot_def)
  qed
qed

lemma splitroot_rest_slash:
  assumes "s \<noteq> []" "last s = CHR ''/''"
  shows "snd (splitroot s) = [] \<or> last (snd (splitroot s)) = CHR ''/''"
proof -
  have "drop k s = [] \<or> last (drop k s) = CHR ''/''" for k
    using assms(2) by (cases "k < length s") simp_all
  from this [of 0] this [of 1] this [of 2] splitroot_rest [of s] show ?thesis
    by auto
qed

lemma Path_str_child:
  assumes fixed: "Path_str bp [] = bp"
    and proper: "bp \<noteq> ''.''" "bp \<noteq> ''/''" "bp \<noteq> ''//''"
    and name: "name \<noteq> []" "name \<noteq> ''.''" "CHR ''/'' \<notin> set name"
  shows "Path_str bp name = bp @ ''/'' @ name"
proof -
  have bp: "bp \<noteq> []"
  proof
    assume "bp = []"
    then have "Path_str bp [] = ''.''"
      by (simp add: Path_str_def posixpath_join_def splitroot_def path_parts_def)
    with fixed \<open>bp = []\<close> show False by simp
  qed
  define s where "s = (if last bp = CHR ''/'' then bp else bp @ ''/'')"
  have s: "s \<noteq> []" "last s = CHR ''/''"
    using bp by (simp_all add: s_def)
  have hd_name: "hd name \<noteq> CHR ''/''" "take 1 name \<noteq> ''/''"
    using name(1,3) by (cases name; auto)+
  have join0: "posixpath_join bp [] = s"
    using bp by (simp add: posixpath_join_def s_def)
  have join1: "posixpath_join bp name = s @ name"
    using bp hd_name(2) by (simp add: posixpath_join_def s_def)
  define root where "root = fst (splitroot s)"
  define rel where "rel = snd (splitroot s)"
  have split0: "splitroot s = (root, rel)"
    by (simp add: root_def rel_def)
  have split1: "splitroot (s @ name) = (root, rel @ name)"
    using splitroot_append [OF s name(1) hd_name(1)] by (simp add: root_def rel_def)
  have "rel = [] \<or> last rel = CHR ''/''"
    unfolding rel_def using s by (rule splitroot_rest_slash)
  then have parts: "path_parts (rel @ name) = path_parts rel @ [name]"
    using name by (rule path_parts_after_slash)
  have root: "root = [] \<or> root = ''/'' \<or> root = ''//''"
    unfolding root_def by (rule splitroot_root)
  have bp_eq: "bp = (if root \<noteq> [] then root @ join ''/'' (path_parts rel)
      else if path_parts rel = [] then ''.'' else join ''/'' (path_parts rel))"
    using fixed by (simp add: Path_str_def join0 split0)
  have nonempty: "path_parts rel \<noteq> []"
  proof
    assume "path_parts rel = []"
    with bp_eq root proper show False
      by (auto split: if_splits)
  qed
  have "Path_str bp name = (if root \<noteq> [] then root @ join ''/'' (path_parts rel @ [name])
      else join ''/'' (path_parts rel @ [name]))"
    by (simp add: Path_str_def join1 split1 parts)
  also have "\<dots> = (if root \<noteq> [] then root @ join ''/'' (path_parts rel)
      else join ''/'' (path_parts rel)) @ ''/'' @ name"
    using nonempty by (simp add: join_snoc)
  also have "(if root \<noteq> [] then root @ join ''/'' (path_parts rel)
      else join ''/'' (path_parts rel)) = bp"
    using bp_eq nonempty by simp
  finally show ?thesis .
qed

section \<open>Running the methods\<close>

lemmas action_defs = bnd_def eval_def ret_def get_base_path_def get_last_logical_location_def
  set_last_logical_location_def writeln_def

lemma show_int_42: "show_int 42 = ''42''"
  by code_simp

lemma show_int_5: "show_int 5 = ''5''"
  by code_simp

lemma map_of_dict_without:
  "map_of (dict_without k kvs) k' = (if k' = k then None else map_of kvs k')"
  by (induction kvs) (auto simp: dict_without_def)

lemma bnd_assoc: "bnd (bnd m f) g = bnd m (\<lambda>x. bnd (f x) g)"
  by (rule ext) (simp add: bnd_def split: prod.splits outcome.splits)

lemma bnd_ret_right: "bnd m ret = m"
  by (rule ext) (simp add: bnd_def ret_def split: prod.splits outcome.splits)

lemma bnd_if: "bnd (if c then a else b) f = (if c then bnd a f else bnd b f)"
  by simp

text \<open>A result with code flows is the result without them, then the first code flow.\<close>

lemma result_then_flows:
  assumes "map_of r ''codeFlows'' = Some flows"
  shows "dump_sarif_result (JDict r) =
     bnd (dump_sarif_result (JDict (dict_without ''codeFlows'' r))) (\<lambda>_.
     bnd (eval (py_item0 flows)) write_code_flow)"
  using assms
  by (simp add: dump_sarif_result_def map_of_dict_without bnd_assoc bnd_eval_Returns bnd_ret
      bnd_if cong: if_cong)

lemma bnd_raises:
  assumes "\<And>x d. \<exists>e d'. f x d = (Raises e, d')"
  shows "\<exists>e d'. bnd m f d = (Raises e, d')"
  using assms by (cases "m d") (auto simp: bnd_def split: outcome.splits)

lemma eval_raises: "\<exists>e' d'. eval (Raises e) d = (Raises e', d')"
  by (simp add: eval_def)

lemma write_physical_location_stored:
  "last_logical_location (snd (write_physical_location pl d)) = last_logical_location d"
  using tracksD [OF silent_write_physical_location, of pl d] by simp

lemma appends_prefix:
  assumes "appends m"
  shows "prefix (dst_file d) (dst_file (snd (m d)))"
  using appendsD [OF assms, of d] by (simp split: prod.splits)

lemma for_each_append:
  "for_each body (xs @ ys) = bnd (for_each body xs) (\<lambda>_. for_each body ys)"
  by (induction xs) (simp_all add: bnd_ret bnd_assoc)

lemma message_missing_raises:
  assumes "map_of r ''message'' = None \<or>
      (map_of r ''message'' = Some (JDict m) \<and> map_of m ''text'' = None)"
  shows "\<exists>e d'. dump_sarif_result (JDict r) d = (Raises e, d')"
  unfolding dump_sarif_result_def
  apply (rule bnd_raises, rule bnd_raises, rule bnd_raises, rule bnd_raises)
  using assms by (auto simp: action_defs)

lemma start_line_missing_raises:
  assumes "map_of pl ''region'' = Some (JDict rg)" and "map_of rg ''startLine'' = None"
  shows "\<exists>e. write_physical_location (JDict pl) d = (Raises e, d)"
  using assms
  by (auto simp: write_physical_location_def action_defs split: option.splits outcome.splits)

lemma location_start_line_missing_raises:
  assumes "map_of loc ''physicalLocation'' = Some (JDict pl)"
    and "map_of pl ''region'' = Some (JDict rg)" and "map_of rg ''startLine'' = None"
  shows "\<exists>e d'. write_location (JDict loc) d = (Raises e, d')"
  unfolding write_location_def
proof (rule bnd_raises, rule bnd_raises)
  fix has_logical :: bool and u :: unit and d1
  obtain e where "write_physical_location (JDict pl) d1 = (Raises e, d1)"
    using start_line_missing_raises [OF assms(2,3)] by blast
  with assms(1) show "\<exists>e d'.
      bnd (eval (py_contains ''physicalLocation'' (JDict loc))) (\<lambda>has_physical.
        if has_physical then
          bnd (eval (py_getitem (JDict loc) ''physicalLocation'')) write_physical_location
        else ret ()) d1 = (Raises e, d')"
    by (simp add: action_defs)
qed

lemma result_start_line_missing_raises:
  assumes "map_of r ''locations'' = Some (JList (JDict loc # locs))"
    and "map_of loc ''physicalLocation'' = Some (JDict pl)"
    and "map_of pl ''region'' = Some (JDict rg)" and "map_of rg ''startLine'' = None"
  shows "\<exists>e d'. dump_sarif_result (JDict r) d = (Raises e, d')"
proof -
  obtain e d' where "write_location (JDict loc) d = (Raises e, d')"
    using location_start_line_missing_raises [OF assms(2-4)] by blast
  with assms(1) show ?thesis
    by (simp add: dump_sarif_result_def action_defs)
qed

lemma py_eq_JStr: "py_eq v (JStr s) = (v = JStr s)"
  by (cases v) auto

lemmas method_defs = dump_sarif_file_def dump_sarif_result_def write_location_def
  write_logical_location_def write_physical_location_def
  write_reporting_descriptor_reference_def write_code_flow_def write_thread_flow_def
  write_thread_flow_location_def

lemmas path_defs = Path_str_def posixpath_join_def splitroot_def path_parts_def

lemma fresh_run:
  assumes "appends m"
  shows "m (GccStyleDumper_init out bp) =
     (fst (run_from m bp JNull),
      \<lparr>dst_file = out @ fst (snd (run_from m bp JNull)), base_path = bp,
         last_logical_location = snd (snd (run_from m bp JNull))\<rparr>)"
  using appendsD [OF assms, of "GccStyleDumper_init out bp"]
  by (simp add: GccStyleDumper_init_def split: prod.splits)

lemma appends_base_path:
  assumes "appends m"
  shows "base_path (snd (m d)) = base_path d"
  using appendsD [OF assms, of d] by (simp split: prod.splits)

lemmas encountered_defs = encountered_in_document_def encountered_in_result_def
  encountered_in_code_flow_def encountered_in_thread_flow_def encountered_in_steps_def
  encountered_in_location_def on_value_def

lemma show_nat_1: "show_nat (Suc 0) = ''1''"
  by (simp add: show_nat.simps digit_char_def)

lemma show_nat_2: "show_nat (Suc (Suc 0)) = ''2''"
  by (simp add: show_nat.simps digit_char_def)

lemma show_nat_3: "show_nat (Suc (Suc (Suc 0))) = ''3''"
  by (simp add: show_nat.simps digit_char_def)


lemma write_step:
  assumes "map_of step ''location'' = Some (JDict loc)"
    and "map_of loc ''message'' = Some (JDict msg)"
    and "map_of msg ''text'' = Some (JStr t)"
  shows "write_thread_flow_location idx (JDict step) =
     bnd (write_location (JDict loc)) (\<lambda>_.
       write_text (JStr (''('' @ show_nat (idx + 1) @ '') '' @ t @ [CHR 0x0A])))"
proof -
  have "bnd (write_text (JStr a)) (\<lambda>_. bnd (write_text (JStr b)) (\<lambda>_. write_text (JStr c))) =
      write_text (JStr (a @ b @ c))" for a b c
    by (rule ext) (simp add: bnd_def)
  with assms show ?thesis
    by (simp add: write_thread_flow_location_def bnd_eval_Returns writeln_def)
qed

section \<open>The claims\<close>

text \<open>
  Claim C1. A result with level \<^verbatim>\<open>error\<close>, message text \<^verbatim>\<open>null pointer dereference\<close>, rule
  id \<^verbatim>\<open>null-deref\<close> and a first location whose physical location has uri \<^verbatim>\<open>foo.c\<close>, start
  line 42 and start column 5 (and no logical location) is rendered in a fixed order: the
  location prefix, the level and the message, then the taxa annotations, then the rule id
  and the newline, then the code flow. With no taxa and no code flows that is exactly the
  line \<^verbatim>\<open>PATH:42:5: error: null pointer dereference [null-deref]\<close> and a newline, after
  whatever the file held, where \<^verbatim>\<open>PATH\<close> is \<^verbatim>\<open>Path(base_path, 'foo.c')\<close>; and that is the
  base path, a slash and \<^verbatim>\<open>foo.c\<close> whenever the base path is the text of a path other than
  \<^verbatim>\<open>.\<close> and the root.
\<close>

theorem scenario_line:
  assumes "map_of r ''locations'' = Some (JList (JDict loc # locs))"
    and "map_of loc ''logicalLocations'' = None"
    and "map_of loc ''physicalLocation'' = Some (JDict pl)"
    and "map_of pl ''artifactLocation'' = Some (JDict al)"
    and "map_of al ''uri'' = Some (JStr ''foo.c'')"
    and "map_of pl ''region'' = Some (JDict rg)"
    and "map_of rg ''startLine'' = Some (JInt 42)"
    and "map_of rg ''startColumn'' = Some (JInt 5)"
    and "map_of r ''level'' = Some (JStr ''error'')"
    and "map_of r ''message'' = Some (JDict msg)"
    and "map_of msg ''text'' = Some (JStr ''null pointer dereference'')"
    and "map_of r ''ruleId'' = Some (JStr ''null-deref'')"
  shows "dump_sarif_result (JDict r) d =
      bnd (write_text (JStr (Path_str (base_path d) ''foo.c'' @ '':42:5: '' @ ''error: '' @
             ''null pointer dereference''))) (\<lambda>_.
      bnd (case map_of r ''taxa'' of
             None \<Rightarrow> ret ()
           | Some taxa \<Rightarrow> bnd (eval (py_iter taxa)) (for_each write_reporting_descriptor_reference)) (\<lambda>_.
      bnd (write_text (JStr ('' [null-deref]'' @ [CHR 0x0A]))) (\<lambda>_.
      case map_of r ''codeFlows'' of
        None \<Rightarrow> ret ()
      | Some flows \<Rightarrow> bnd (eval (py_item0 flows)) write_code_flow))) d \<and>
    (map_of r ''taxa'' = None \<and> map_of r ''codeFlows'' = None \<longrightarrow>
      dump_sarif_result (JDict r) d =
        (Returns (), d\<lparr>dst_file := dst_file d @ Path_str (base_path d) ''foo.c'' @
           '':42:5: error: null pointer dereference [null-deref]'' @ [CHR 0x0A]\<rparr>)) \<and>
    (Path_str (base_path d) [] = base_path d \<and> base_path d \<noteq> ''.'' \<and>
     base_path d \<noteq> ''/'' \<and> base_path d \<noteq> ''//'' \<longrightarrow>
      Path_str (base_path d) ''foo.c'' = base_path d @ ''/foo.c'')"
proof (intro conjI impI)
  show "dump_sarif_result (JDict r) d =
      bnd (write_text (JStr (Path_str (base_path d) ''foo.c'' @ '':42:5: '' @ ''error: '' @
             ''null pointer dereference''))) (\<lambda>_.
      bnd (case map_of r ''taxa'' of
             None \<Rightarrow> ret ()
           | Some taxa \<Rightarrow> bnd (eval (py_iter taxa)) (for_each write_reporting_descriptor_reference)) (\<lambda>_.
      bnd (write_text (JStr ('' [null-deref]'' @ [CHR 0x0A]))) (\<lambda>_.
      case map_of r ''codeFlows'' of
        None \<Rightarrow> ret ()
      | Some flows \<Rightarrow> bnd (eval (py_item0 flows)) write_code_flow))) d"
    using assms
    by (simp add: dump_sarif_result_def write_location_def write_physical_location_def action_defs
        show_int_42 show_int_5 split: option.splits outcome.splits prod.splits)
next
  assume "map_of r ''taxa'' = None \<and> map_of r ''codeFlows'' = None"
  with assms show "dump_sarif_result (JDict r) d =
        (Returns (), d\<lparr>dst_file := dst_file d @ Path_str (base_path d) ''foo.c'' @
           '':42:5: error: null pointer dereference [null-deref]'' @ [CHR 0x0A]\<rparr>)"
    by (simp add: dump_sarif_result_def write_location_def write_physical_location_def action_defs
        show_int_42 show_int_5)
next
  assume "Path_str (base_path d) [] = base_path d \<and> base_path d \<noteq> ''.'' \<and>
     base_path d \<noteq> ''/'' \<and> base_path d \<noteq> ''//''"
  then show "Path_str (base_path d) ''foo.c'' = base_path d @ ''/foo.c''"
    using Path_str_child [of "base_path d" "''foo.c''"] by simp
qed

text \<open>The scenario itself, under the base path \<^verbatim>\<open>/src/proj\<close>.\<close>

theorem scenario_line_witness:
  "dump_sarif_result (JDict scenario_result) (GccStyleDumper_init [] ''/src/proj'') =
     (Returns (), \<lparr>dst_file = ''/src/proj/foo.c:42:5: error: null pointer dereference [null-deref]'' @ [CHR 0x0A],
        base_path = ''/src/proj'', last_logical_location = JNull\<rparr>)"
proof -
  have fixed: "Path_str ''/src/proj'' [] = ''/src/proj''"
    by (simp add: Path_str_def posixpath_join_def splitroot_def path_parts_def)
  have "map_of scenario_result ''taxa'' = None \<and> map_of scenario_result ''codeFlows'' = None"
    by (simp add: scenario_result_def)
  moreover note scenario_line [of scenario_result
      "[(''physicalLocation'', JDict
          [(''artifactLocation'', JDict [(''uri'', JStr ''foo.c'')]),
           (''region'', JDict [(''startLine'', JInt 42), (''startColumn'', JInt 5)])])]"
      "[]"
      "[(''artifactLocation'', JDict [(''uri'', JStr ''foo.c'')]),
           (''region'', JDict [(''startLine'', JInt 42), (''startColumn'', JInt 5)])]"
      "[(''uri'', JStr ''foo.c'')]"
      "[(''startLine'', JInt 42), (''startColumn'', JInt 5)]"
      "[(''text'', JStr ''null pointer dereference'')]"
      "GccStyleDumper_init [] ''/src/proj''"]
  ultimately show ?thesis
    using fixed by (simp add: scenario_result_def GccStyleDumper_init_def action_defs)
qed

text \<open>
  Claim C5. A result without \<^verbatim>\<open>message\<close>, or whose message has no \<^verbatim>\<open>text\<close>, raises: with
  no \<^verbatim>\<open>locations\<close> the exception is \<^verbatim>\<open>KeyError\<close>, and the level already written stays in the
  file, a line that is never finished. A physical location whose region has no
  \<^verbatim>\<open>startLine\<close> raises before it writes anything (\<^verbatim>\<open>KeyError\<close> when its uri is a string),
  and so does the result whose first location holds it. Nothing catches the exception:
  \<^verbatim>\<open>dump_sarif_file\<close> stops at the first result that raises, the results after it are not
  rendered, and the file keeps what was written up to there.
\<close>

theorem missing_required_fields:
  "(map_of r ''message'' = None \<or>
      (map_of r ''message'' = Some (JDict m) \<and> map_of m ''text'' = None) \<longrightarrow>
      (\<exists>e d'. dump_sarif_result (JDict r) d = (Raises e, d')) \<and>
      (map_of r ''locations'' = None \<longrightarrow>
         dump_sarif_result (JDict r) d =
           (Raises KeyError,
            d\<lparr>dst_file := dst_file d @
               (case map_of r ''level'' of None \<Rightarrow> [] | Some level \<Rightarrow> py_str level @ '': '')\<rparr>))) \<and>
   (map_of pl ''region'' = Some (JDict rg) \<and> map_of rg ''startLine'' = None \<longrightarrow>
      (\<exists>e. write_physical_location (JDict pl) d = (Raises e, d)) \<and>
      (map_of pl ''artifactLocation'' = Some (JDict al) \<and> map_of al ''uri'' = Some (JStr uri) \<longrightarrow>
         write_physical_location (JDict pl) d = (Raises KeyError, d)) \<and>
      (map_of r ''locations'' = Some (JList (JDict loc # locs)) \<and>
       map_of loc ''physicalLocation'' = Some (JDict pl) \<longrightarrow>
         (\<exists>e d'. dump_sarif_result (JDict r) d = (Raises e, d')))) \<and>
   (dump_sarif_file before d = (Returns (), d1) \<and> dump_sarif_result x d1 = (Raises e, d') \<longrightarrow>
      dump_sarif_file (before @ x # after) d = (Raises e, d') \<and>
      prefix (dst_file d) (dst_file d1) \<and> prefix (dst_file d1) (dst_file d'))"
proof (intro conjI impI)
  assume missing: "map_of r ''message'' = None \<or>
      (map_of r ''message'' = Some (JDict m) \<and> map_of m ''text'' = None)"
  then show "\<exists>e d'. dump_sarif_result (JDict r) d = (Raises e, d')"
    by (rule message_missing_raises)
  assume "map_of r ''locations'' = None"
  with missing show "dump_sarif_result (JDict r) d =
           (Raises KeyError,
            d\<lparr>dst_file := dst_file d @
               (case map_of r ''level'' of None \<Rightarrow> [] | Some level \<Rightarrow> py_str level @ '': '')\<rparr>)"
    by (auto simp: dump_sarif_result_def action_defs split: option.splits)
next
  assume region: "map_of pl ''region'' = Some (JDict rg) \<and> map_of rg ''startLine'' = None"
  then show "\<exists>e. write_physical_location (JDict pl) d = (Raises e, d)"
    by (simp add: start_line_missing_raises)
  {
    assume "map_of pl ''artifactLocation'' = Some (JDict al) \<and> map_of al ''uri'' = Some (JStr uri)"
    with region show "write_physical_location (JDict pl) d = (Raises KeyError, d)"
      by (simp add: write_physical_location_def action_defs)
  }
  {
    assume "map_of r ''locations'' = Some (JList (JDict loc # locs)) \<and>
       map_of loc ''physicalLocation'' = Some (JDict pl)"
    with region show "\<exists>e d'. dump_sarif_result (JDict r) d = (Raises e, d')"
      by (simp add: result_start_line_missing_raises)
  }
next
  assume run: "dump_sarif_file before d = (Returns (), d1) \<and> dump_sarif_result x d1 = (Raises e, d')"
  then show "dump_sarif_file (before @ x # after) d = (Raises e, d')"
    by (simp add: dump_sarif_file_def for_each_append) (simp add: bnd_def)
  from run appends_prefix [OF appends_dump_sarif_file, of d before]
  show "prefix (dst_file d) (dst_file d1)"
    by simp
  from run appends_prefix [OF appends_dump_sarif_result, of d1 x]
  show "prefix (dst_file d1) (dst_file d')"
    by simp
qed

text \<open>
  A result with a level and no message, a region with a column and no line, and a document
  whose second result has no message.
\<close>

theorem missing_required_fields_witness:
  "dump_sarif_result (JDict [(''level'', JStr ''error'')]) fresh_dumper =
     (Raises KeyError, fresh_dumper\<lparr>dst_file := ''error: ''\<rparr>) \<and>
   write_physical_location
     (JDict [(''artifactLocation'', JDict [(''uri'', JStr ''foo.c'')]),
             (''region'', JDict [(''startColumn'', JInt 5)])]) fresh_dumper =
     (Raises KeyError, fresh_dumper) \<and>
   dump_sarif_file
     ([JDict [(''message'', JDict [(''text'', JStr ''first'')])]] @
      JDict [(''level'', JStr ''error'')] #
      [JDict [(''message'', JDict [(''text'', JStr ''third'')])]]) fresh_dumper =
     (Raises KeyError, fresh_dumper\<lparr>dst_file := ''first'' @ [CHR 0x0A] @ ''error: ''\<rparr>)"
proof -
  have first: "dump_sarif_file [JDict [(''message'', JDict [(''text'', JStr ''first'')])]] fresh_dumper =
      (Returns (), fresh_dumper\<lparr>dst_file := ''first'' @ [CHR 0x0A]\<rparr>)"
    by (simp add: method_defs action_defs fresh_dumper_def GccStyleDumper_init_def)
  have second: "dump_sarif_result (JDict [(''level'', JStr ''error'')])
      (fresh_dumper\<lparr>dst_file := ''first'' @ [CHR 0x0A]\<rparr>) =
      (Raises KeyError, fresh_dumper\<lparr>dst_file := ''first'' @ [CHR 0x0A] @ ''error: ''\<rparr>)"
    by (simp add: method_defs action_defs fresh_dumper_def GccStyleDumper_init_def)
  note missing_required_fields [of "[(''level'', JStr ''error'')]" "[]" fresh_dumper
      "[(''artifactLocation'', JDict [(''uri'', JStr ''foo.c'')]),
        (''region'', JDict [(''startColumn'', JInt 5)])]"
      "[(''startColumn'', JInt 5)]" "[(''uri'', JStr ''foo.c'')]" "''foo.c''" "[]" "[]"
      "[JDict [(''message'', JDict [(''text'', JStr ''first'')])]]"
      "fresh_dumper\<lparr>dst_file := ''first'' @ [CHR 0x0A]\<rparr>"
      "JDict [(''level'', JStr ''error'')]" KeyError
      "fresh_dumper\<lparr>dst_file := ''first'' @ [CHR 0x0A] @ ''error: ''\<rparr>"
      "[JDict [(''message'', JDict [(''text'', JStr ''third'')])]]"]
  with first second show ?thesis
    by (simp add: fresh_dumper_def GccStyleDumper_init_def)
qed

text \<open>
  Claim C6. \<^verbatim>\<open>write_reporting_descriptor_reference\<close> appends \<^verbatim>\<open> [CWE-ID]\<close>, with no newline,
  when the reference names the tool component \<^verbatim>\<open>cwe\<close> (and has an \<^verbatim>\<open>id\<close> to print), and
  appends nothing in every other case; naming \<^verbatim>\<open>cwe\<close> means that the reference is a dict
  whose \<^verbatim>\<open>toolComponent\<close> is a dict with \<^verbatim>\<open>name\<close> equal to the string \<^verbatim>\<open>cwe\<close>.
\<close>

theorem cwe_annotation:
  "dst_file (snd (write_reporting_descriptor_reference rdr d)) =
     dst_file d @
       (if names_cwe rdr then (case py_getitem rdr ''id'' of
              Raises e \<Rightarrow> []
            | Returns ident \<Rightarrow> '' [CWE-'' @ py_str ident @ '']'')
        else []) \<and>
   (names_cwe rdr \<and> py_getitem rdr ''id'' = Returns ident \<longrightarrow>
      write_reporting_descriptor_reference rdr d =
        (Returns (), d\<lparr>dst_file := dst_file d @ '' [CWE-'' @ py_str ident @ '']''\<rparr>)) \<and>
   (\<not> names_cwe rdr \<longrightarrow> dst_file (snd (write_reporting_descriptor_reference rdr d)) = dst_file d) \<and>
   (names_cwe rdr \<longleftrightarrow>
      (\<exists>kvs component. rdr = JDict kvs \<and> map_of kvs ''toolComponent'' = Some (JDict component) \<and>
         map_of component ''name'' = Some (JStr ''cwe'')))"
proof (intro conjI impI)
  show written: "dst_file (snd (write_reporting_descriptor_reference rdr d)) =
     dst_file d @
       (if names_cwe rdr then (case py_getitem rdr ''id'' of
              Raises e \<Rightarrow> []
            | Returns ident \<Rightarrow> '' [CWE-'' @ py_str ident @ '']'')
        else [])"
  proof (cases rdr)
    case (JDict kvs)
    show ?thesis
    proof (cases "map_of kvs ''toolComponent''")
      case None
      with JDict show ?thesis
        by (simp add: write_reporting_descriptor_reference_def names_cwe_def action_defs)
    next
      case (Some component)
      with JDict show ?thesis
        by (cases component)
          (auto simp: write_reporting_descriptor_reference_def names_cwe_def action_defs
            split: option.splits)
    qed
  next
    case (JList xs)
    then show ?thesis
      by (simp add: write_reporting_descriptor_reference_def names_cwe_def action_defs)
  next
    case (JStr s)
    then show ?thesis
      by (simp add: write_reporting_descriptor_reference_def names_cwe_def action_defs)
  qed (simp_all add: write_reporting_descriptor_reference_def names_cwe_def action_defs)
  show "\<not> names_cwe rdr \<Longrightarrow>
      dst_file (snd (write_reporting_descriptor_reference rdr d)) = dst_file d"
    by (simp add: written)
  show "names_cwe rdr =
      (\<exists>kvs component. rdr = JDict kvs \<and> map_of kvs ''toolComponent'' = Some (JDict component) \<and>
         map_of component ''name'' = Some (JStr ''cwe''))"
  proof (cases rdr)
    case (JDict kvs)
    show ?thesis
    proof (cases "map_of kvs ''toolComponent''")
      case None
      with JDict show ?thesis by (simp add: names_cwe_def)
    next
      case (Some component)
      with JDict show ?thesis
        by (cases component) (auto simp: names_cwe_def py_eq_JStr split: option.splits)
    qed
  qed (simp_all add: names_cwe_def)
next
  assume "names_cwe rdr \<and> py_getitem rdr ''id'' = Returns ident"
  then show "write_reporting_descriptor_reference rdr d =
        (Returns (), d\<lparr>dst_file := dst_file d @ '' [CWE-'' @ py_str ident @ '']''\<rparr>)"
    by (cases rdr)
      (auto simp: write_reporting_descriptor_reference_def names_cwe_def action_defs
        split: option.splits outcome.splits)
qed

text \<open>A reference into \<^verbatim>\<open>cwe\<close> with id 120, and the same reference into another catalog.\<close>

theorem cwe_annotation_witness:
  "write_reporting_descriptor_reference
     (JDict [(''id'', JStr ''120''), (''toolComponent'', JDict [(''name'', JStr ''cwe'')])])
     fresh_dumper =
     (Returns (), fresh_dumper\<lparr>dst_file := '' [CWE-120]''\<rparr>) \<and>
   dst_file (snd (write_reporting_descriptor_reference
     (JDict [(''id'', JStr ''120''), (''toolComponent'', JDict [(''name'', JStr ''owasp'')])])
     fresh_dumper)) = []"
proof -
  have "names_cwe (JDict [(''id'', JStr ''120''), (''toolComponent'', JDict [(''name'', JStr ''cwe'')])])"
    and "\<not> names_cwe (JDict [(''id'', JStr ''120''), (''toolComponent'', JDict [(''name'', JStr ''owasp'')])])"
    by (simp_all add: names_cwe_def)
  with cwe_annotation [of "JDict [(''id'', JStr ''120''), (''toolComponent'', JDict [(''name'', JStr ''cwe'')])]"
      fresh_dumper "JStr ''120''"]
    cwe_annotation [of "JDict [(''id'', JStr ''120''), (''toolComponent'', JDict [(''name'', JStr ''owasp'')])]"
      fresh_dumper "JStr ''120''"]
  show ?thesis
    by (simp add: fresh_dumper_def GccStyleDumper_init_def)
qed

text \<open>
  Claim C7. A location whose \<^verbatim>\<open>logicalLocations\<close> is the empty list is rendered as the same
  location without the key: only its physical location, if any, is written, the logical
  part writes nothing and raises nothing, and the stored logical location is unchanged.
\<close>

theorem empty_logical_locations_as_absent:
  assumes "map_of loc ''logicalLocations'' = Some (JList [])"
  shows "write_location (JDict loc) d =
           write_location (JDict (dict_without ''logicalLocations'' loc)) d \<and>
         write_location (JDict loc) d =
           (case map_of loc ''physicalLocation'' of
              None \<Rightarrow> (Returns (), d)
            | Some pl \<Rightarrow> write_physical_location pl d) \<and>
         last_logical_location (snd (write_location (JDict loc) d)) = last_logical_location d"
proof -
  have absent: "write_location (JDict (dict_without ''logicalLocations'' loc)) d =
      (case map_of loc ''physicalLocation'' of
              None \<Rightarrow> (Returns (), d)
            | Some pl \<Rightarrow> write_physical_location pl d)"
    by (simp add: write_location_def action_defs map_of_dict_without split: option.splits)
  have present: "write_location (JDict loc) d =
      (case map_of loc ''physicalLocation'' of
              None \<Rightarrow> (Returns (), d)
            | Some pl \<Rightarrow> write_physical_location pl d)"
    using assms by (simp add: write_location_def action_defs split: option.splits)
  have "last_logical_location (snd (write_location (JDict loc) d)) = last_logical_location d"
    unfolding present by (simp add: write_physical_location_stored split: option.splits)
  with absent present show ?thesis
    by simp
qed

text \<open>A location with an empty \<^verbatim>\<open>logicalLocations\<close>, and the same location without it.\<close>

theorem empty_logical_locations_as_absent_witness:
  "write_location
     (JDict [(''logicalLocations'', JList []), (''physicalLocation'', at_line ''foo.c'' 42)])
     (fresh_dumper\<lparr>last_logical_location := in_function ''f''\<rparr>) =
   (Returns (),
    fresh_dumper\<lparr>last_logical_location := in_function ''f'', dst_file := ''/src/proj/foo.c:42: ''\<rparr>) \<and>
   write_location (JDict [(''physicalLocation'', at_line ''foo.c'' 42)])
     (fresh_dumper\<lparr>last_logical_location := in_function ''f''\<rparr>) =
   (Returns (),
    fresh_dumper\<lparr>last_logical_location := in_function ''f'', dst_file := ''/src/proj/foo.c:42: ''\<rparr>)"
  using empty_logical_locations_as_absent
    [of "[(''logicalLocations'', JList []), (''physicalLocation'', at_line ''foo.c'' 42)]"
      "fresh_dumper\<lparr>last_logical_location := in_function ''f''\<rparr>"]
  by (simp add: dict_without_def method_defs action_defs in_function_def at_line_def
      fresh_dumper_def GccStyleDumper_init_def path_defs show_int_42)

text \<open>
  Claim C9. Present and empty is not absent for \<^verbatim>\<open>locations\<close> and \<^verbatim>\<open>codeFlows\<close>: a result
  whose \<^verbatim>\<open>locations\<close> is the empty list raises \<^verbatim>\<open>IndexError\<close> at once; a result whose
  \<^verbatim>\<open>codeFlows\<close> is the empty list raises in every case, and raises \<^verbatim>\<open>IndexError\<close> after its
  line is written when the rest of it renders; a code flow without \<^verbatim>\<open>threadFlows\<close> raises
  \<^verbatim>\<open>KeyError\<close>, and one whose \<^verbatim>\<open>threadFlows\<close> is the empty list raises \<^verbatim>\<open>IndexError\<close>.
\<close>

theorem empty_sequences_raise:
  "(map_of r ''locations'' = Some (JList []) \<longrightarrow>
      dump_sarif_result (JDict r) d = (Raises IndexError, d)) \<and>
   (map_of r ''codeFlows'' = Some (JList []) \<longrightarrow>
      (\<exists>e d'. dump_sarif_result (JDict r) d = (Raises e, d')) \<and>
      (\<forall>d'. dump_sarif_result (JDict (dict_without ''codeFlows'' r)) d = (Returns (), d') \<longrightarrow>
         dump_sarif_result (JDict r) d = (Raises IndexError, d'))) \<and>
   (map_of flow ''threadFlows'' = None \<longrightarrow>
      write_code_flow (JDict flow) d = (Raises KeyError, d)) \<and>
   (map_of flow ''threadFlows'' = Some (JList []) \<longrightarrow>
      write_code_flow (JDict flow) d = (Raises IndexError, d))"
proof (intro conjI impI allI)
  assume "map_of r ''locations'' = Some (JList [])"
  then show "dump_sarif_result (JDict r) d = (Raises IndexError, d)"
    by (simp add: dump_sarif_result_def action_defs)
next
  assume flows: "map_of r ''codeFlows'' = Some (JList [])"
  have run: "dump_sarif_result (JDict r) d =
      bnd (dump_sarif_result (JDict (dict_without ''codeFlows'' r)))
        (\<lambda>_. eval (Raises IndexError)) d"
    by (simp add: result_then_flows [OF flows] bnd_eval_Raises)
  show "\<exists>e d'. dump_sarif_result (JDict r) d = (Raises e, d')"
    unfolding run by (rule bnd_raises) (rule eval_raises)
  fix d'
  assume "dump_sarif_result (JDict (dict_without ''codeFlows'' r)) d = (Returns (), d')"
  then show "dump_sarif_result (JDict r) d = (Raises IndexError, d')"
    unfolding run by (simp add: bnd_def eval_def)
next
  assume "map_of flow ''threadFlows'' = None"
  then show "write_code_flow (JDict flow) d = (Raises KeyError, d)"
    by (simp add: write_code_flow_def action_defs)
next
  assume "map_of flow ''threadFlows'' = Some (JList [])"
  then show "write_code_flow (JDict flow) d = (Raises IndexError, d)"
    by (simp add: write_code_flow_def action_defs)
qed

text \<open>Results with an empty \<^verbatim>\<open>locations\<close> and an empty \<^verbatim>\<open>codeFlows\<close>, and two code flows.\<close>

theorem empty_sequences_raise_witness:
  "dump_sarif_result (JDict [(''locations'', JList []), (''message'', JDict [(''text'', JStr ''m'')])])
     fresh_dumper = (Raises IndexError, fresh_dumper) \<and>
   dump_sarif_result (JDict [(''codeFlows'', JList []), (''message'', JDict [(''text'', JStr ''m'')])])
     fresh_dumper = (Raises IndexError, fresh_dumper\<lparr>dst_file := ''m'' @ [CHR 0x0A]\<rparr>) \<and>
   write_code_flow (JDict []) fresh_dumper = (Raises KeyError, fresh_dumper) \<and>
   write_code_flow (JDict [(''threadFlows'', JList [])]) fresh_dumper = (Raises IndexError, fresh_dumper)"
proof -
  have "dump_sarif_result
      (JDict (dict_without ''codeFlows''
        [(''codeFlows'', JList []), (''message'', JDict [(''text'', JStr ''m'')])])) fresh_dumper =
      (Returns (), fresh_dumper\<lparr>dst_file := ''m'' @ [CHR 0x0A]\<rparr>)"
    by (simp add: dict_without_def method_defs action_defs fresh_dumper_def GccStyleDumper_init_def)
  with empty_sequences_raise
      [of "[(''locations'', JList []), (''message'', JDict [(''text'', JStr ''m'')])]" fresh_dumper "[]"]
    empty_sequences_raise
      [of "[(''codeFlows'', JList []), (''message'', JDict [(''text'', JStr ''m'')])]" fresh_dumper
        "[(''threadFlows'', JList [])]"]
  show ?thesis
    by simp
qed

text \<open>
  Claim C10. \<^verbatim>\<open>write_physical_location\<close> subscripts \<^verbatim>\<open>artifactLocation\<close>, its \<^verbatim>\<open>uri\<close> and
  \<^verbatim>\<open>region\<close> without a test: a physical location without \<^verbatim>\<open>artifactLocation\<close>, or whose
  artifact location has no \<^verbatim>\<open>uri\<close>, or without \<^verbatim>\<open>region\<close>, raises and writes nothing
  (\<^verbatim>\<open>KeyError\<close> when what precedes the missing key is there). Only \<^verbatim>\<open>startColumn\<close> is
  tested: a region with a start line and no start column is written as \<^verbatim>\<open>PATH:LINE: \<close>.
\<close>

theorem physical_location_access:
  "(map_of pl ''artifactLocation'' = None \<longrightarrow>
      write_physical_location (JDict pl) d = (Raises KeyError, d)) \<and>
   (map_of pl ''artifactLocation'' = Some (JDict al) \<and> map_of al ''uri'' = None \<longrightarrow>
      write_physical_location (JDict pl) d = (Raises KeyError, d)) \<and>
   (map_of pl ''region'' = None \<longrightarrow>
      (\<exists>e. write_physical_location (JDict pl) d = (Raises e, d))) \<and>
   (map_of pl ''artifactLocation'' = Some (JDict al) \<and> map_of al ''uri'' = Some u \<and>
    map_of pl ''region'' = None \<longrightarrow>
      write_physical_location (JDict pl) d = (Raises KeyError, d)) \<and>
   (map_of pl ''artifactLocation'' = Some (JDict al) \<and> map_of al ''uri'' = Some (JStr uri) \<and>
    map_of pl ''region'' = Some (JDict rg) \<and> map_of rg ''startLine'' = Some (JInt line) \<and>
    map_of rg ''startColumn'' = None \<longrightarrow>
      write_physical_location (JDict pl) d =
        (Returns (), d\<lparr>dst_file := dst_file d @ Path_str (base_path d) uri @ '':'' @
           show_int line @ '': ''\<rparr>))"
  by (auto simp: write_physical_location_def action_defs split: option.splits outcome.splits)

text \<open>Physical locations without an artifact location, without a region, without a column.\<close>

theorem physical_location_access_witness:
  "write_physical_location (JDict [(''region'', JDict [(''startLine'', JInt 42)])]) fresh_dumper =
     (Raises KeyError, fresh_dumper) \<and>
   write_physical_location (JDict [(''artifactLocation'', JDict [(''uri'', JStr ''foo.c'')])])
     fresh_dumper = (Raises KeyError, fresh_dumper) \<and>
   write_physical_location (at_line ''foo.c'' 42) fresh_dumper =
     (Returns (), fresh_dumper\<lparr>dst_file := ''/src/proj/foo.c:42: ''\<rparr>)"
  using physical_location_access
      [of "[(''region'', JDict [(''startLine'', JInt 42)])]" fresh_dumper "[]" "JNull" "''foo.c''" "[]" 42]
    physical_location_access
      [of "[(''artifactLocation'', JDict [(''uri'', JStr ''foo.c'')])]" fresh_dumper
        "[(''uri'', JStr ''foo.c'')]" "JStr ''foo.c''" "''foo.c''" "[]" 42]
    physical_location_access
      [of "[(''artifactLocation'', JDict [(''uri'', JStr ''foo.c'')]),
            (''region'', JDict [(''startLine'', JInt 42)])]" fresh_dumper
        "[(''uri'', JStr ''foo.c'')]" "JStr ''foo.c''" "''foo.c''" "[(''startLine'', JInt 42)]" 42]
  by (simp add: at_line_def fresh_dumper_def GccStyleDumper_init_def path_defs show_int_42)

text \<open>
  Claim C8. Rendering is a function of the document, the base path and the dumper's own
  state: a dumper constructed on a file that holds \<open>out\<close> leaves \<open>out\<close> followed by
  \<open>rendered results bp\<close>, a text that depends on the document and the base path alone. Two
  dumpers constructed for the same document write the same text, whether each has a file
  of its own or the second writes to the file after the first.
\<close>

theorem rendering_is_deterministic:
  "dump_sarif_file results (GccStyleDumper_init out bp) =
     (fst (run_from (dump_sarif_file results) bp JNull),
      \<lparr>dst_file = out @ rendered results bp, base_path = bp,
         last_logical_location = snd (snd (run_from (dump_sarif_file results) bp JNull))\<rparr>) \<and>
   dst_file (snd (dump_sarif_file results (GccStyleDumper_init [] bp))) = rendered results bp \<and>
   dst_file (snd (dump_sarif_file results (GccStyleDumper_init
       (dst_file (snd (dump_sarif_file results (GccStyleDumper_init out bp)))) bp))) =
     out @ rendered results bp @ rendered results bp"
proof -
  have run: "dump_sarif_file results (GccStyleDumper_init out' bp) =
     (fst (run_from (dump_sarif_file results) bp JNull),
      \<lparr>dst_file = out' @ rendered results bp, base_path = bp,
         last_logical_location = snd (snd (run_from (dump_sarif_file results) bp JNull))\<rparr>)" for out'
    unfolding rendered_def by (rule fresh_run) (rule appends_dump_sarif_file)
  show ?thesis
    by (simp add: run)
qed

text \<open>The scenario's document, rendered to a file that already holds some text.\<close>

theorem rendering_is_deterministic_witness:
  "dump_sarif_file [JDict scenario_result] (GccStyleDumper_init ''earlier text'' ''/src/proj'') =
     (Returns (),
      \<lparr>dst_file = ''earlier text'' @
         ''/src/proj/foo.c:42:5: error: null pointer dereference [null-deref]'' @ [CHR 0x0A],
       base_path = ''/src/proj'', last_logical_location = JNull\<rparr>)"
proof -
  have "run_from (dump_sarif_file [JDict scenario_result]) ''/src/proj'' JNull =
      (Returns (), ''/src/proj/foo.c:42:5: error: null pointer dereference [null-deref]'' @ [CHR 0x0A], JNull)"
    by (simp add: run_from_def method_defs action_defs scenario_result_def GccStyleDumper_init_def
        path_defs show_int_42 show_int_5)
  with rendering_is_deterministic [of "[JDict scenario_result]" "''earlier text''" "''/src/proj''"]
  show ?thesis
    by (simp add: rendered_def)
qed

text \<open>
  Claim C3. \<^verbatim>\<open>last_logical_location\<close> starts as \<^verbatim>\<open>None\<close>. Each call of
  \<^verbatim>\<open>write_logical_location\<close> leaves it as \<open>remember\<close> says, whether the call returns or
  raises: unchanged when the logical location equals the stored one, the new logical
  location otherwise; a logical location that is not a function is stored, and then
  recognised, without a word written. Over a document it is \<open>remember\<close> folded over the
  logical locations of the result locations and of the trace steps in traversal order (to
  the point of the exception when one is raised). A method is determined by the base path
  and the stored logical location, never changes the base path, and only appends to the
  file: nothing else is carried from one call to the next.
\<close>

theorem last_logical_location_is_the_state:
  "last_logical_location (GccStyleDumper_init out bp) = JNull \<and>
   last_logical_location (snd (write_logical_location ll d)) = remember (last_logical_location d) ll \<and>
   (\<not> py_eq (JDict kvs) (last_logical_location d) \<and> map_of kvs ''kind'' = Some kind \<and>
    \<not> py_eq kind (JStr ''function'') \<longrightarrow>
      write_logical_location (JDict kvs) d = (Returns (), d\<lparr>last_logical_location := JDict kvs\<rparr>) \<and>
      write_logical_location (JDict kvs) (d\<lparr>last_logical_location := JDict kvs\<rparr>) =
        (Returns (), d\<lparr>last_logical_location := JDict kvs\<rparr>)) \<and>
   (\<exists>met. prefix met (encountered_in_document results) \<and>
      last_logical_location (snd (dump_sarif_file results d)) =
        foldl remember (last_logical_location d) met \<and>
      ((\<exists>x. fst (dump_sarif_file results d) = Returns x) \<longrightarrow>
         met = encountered_in_document results)) \<and>
   dump_sarif_result result d =
     (case run_from (dump_sarif_result result) (base_path d) (last_logical_location d) of
        (r, w, stored) \<Rightarrow> (r, d\<lparr>dst_file := dst_file d @ w, last_logical_location := stored\<rparr>)) \<and>
   base_path (snd (dump_sarif_file results d)) = base_path d"
proof (intro conjI impI)
  show "last_logical_location (GccStyleDumper_init out bp) = JNull"
    by (simp add: GccStyleDumper_init_def)
  show "last_logical_location (snd (write_logical_location ll d)) = remember (last_logical_location d) ll"
    by (rule write_logical_location_stored)
  show "\<exists>met. prefix met (encountered_in_document results) \<and>
      last_logical_location (snd (dump_sarif_file results d)) =
        foldl remember (last_logical_location d) met \<and>
      ((\<exists>x. fst (dump_sarif_file results d) = Returns x) \<longrightarrow>
         met = encountered_in_document results)"
    using tracks_dump_sarif_file by (rule tracksD)
  show "dump_sarif_result result d =
     (case run_from (dump_sarif_result result) (base_path d) (last_logical_location d) of
        (r, w, stored) \<Rightarrow> (r, d\<lparr>dst_file := dst_file d @ w, last_logical_location := stored\<rparr>))"
    using appends_dump_sarif_result by (rule appendsD)
  show "base_path (snd (dump_sarif_file results d)) = base_path d"
    using appends_dump_sarif_file by (rule appends_base_path)
next
  assume other: "\<not> py_eq (JDict kvs) (last_logical_location d) \<and> map_of kvs ''kind'' = Some kind \<and>
    \<not> py_eq kind (JStr ''function'')"
  then show "write_logical_location (JDict kvs) d =
      (Returns (), d\<lparr>last_logical_location := JDict kvs\<rparr>)"
    by (simp add: write_logical_location_def action_defs)
  show "write_logical_location (JDict kvs) (d\<lparr>last_logical_location := JDict kvs\<rparr>) =
        (Returns (), d\<lparr>last_logical_location := JDict kvs\<rparr>)"
    by (simp add: write_logical_location_def action_defs py_eq_refl)
qed

text \<open>
  A document of two results, the first in \<^verbatim>\<open>f\<close> with a trace step in \<^verbatim>\<open>g\<close>, the second in
  \<^verbatim>\<open>g\<close>; and a logical location that is a namespace.
\<close>

theorem last_logical_location_is_the_state_witness:
  "encountered_in_document
     [JDict (with_steps [step_in ''g'' ''s1''] (result_in ''f'' ''m1'')), JDict (result_in ''g'' ''m2'')] =
     [in_function ''f'', in_function ''g'', in_function ''g''] \<and>
   last_logical_location (snd (dump_sarif_file
     [JDict (with_steps [step_in ''g'' ''s1''] (result_in ''f'' ''m1'')), JDict (result_in ''g'' ''m2'')]
     fresh_dumper)) = in_function ''g'' \<and>
   write_logical_location (JDict [(''kind'', JStr ''namespace'')]) fresh_dumper =
     (Returns (), fresh_dumper\<lparr>last_logical_location := JDict [(''kind'', JStr ''namespace'')]\<rparr>)"
proof -
  let ?doc = "[JDict (with_steps [step_in ''g'' ''s1''] (result_in ''f'' ''m1'')), JDict (result_in ''g'' ''m2'')]"
  have met: "encountered_in_document ?doc = [in_function ''f'', in_function ''g'', in_function ''g'']"
    by (simp add: encountered_defs in_function_def fresh_dumper_def result_in_def step_in_def
        with_steps_def GccStyleDumper_init_def)
  have returns: "fst (dump_sarif_file ?doc fresh_dumper) = Returns ()"
    by (simp add: method_defs action_defs in_function_def fresh_dumper_def result_in_def
        step_in_def with_steps_def GccStyleDumper_init_def py_eq.simps show_nat_1)
  have other: "\<not> py_eq (JDict [(''kind'', JStr ''namespace'')]) (last_logical_location fresh_dumper) \<and>
      map_of [(''kind'', JStr ''namespace'')] ''kind'' = Some (JStr ''namespace'') \<and>
      \<not> py_eq (JStr ''namespace'') (JStr ''function'')"
    by (simp add: in_function_def fresh_dumper_def result_in_def step_in_def with_steps_def
        GccStyleDumper_init_def)
  from last_logical_location_is_the_state
    [of "[]" "''/src/proj''" JNull fresh_dumper "[(''kind'', JStr ''namespace'')]" "JStr ''namespace''"
      ?doc JNull]
  obtain seen where seen: "last_logical_location (snd (dump_sarif_file ?doc fresh_dumper)) =
        foldl remember (last_logical_location fresh_dumper) seen"
      "(\<exists>x. fst (dump_sarif_file ?doc fresh_dumper) = Returns x) \<longrightarrow> seen = encountered_in_document ?doc"
    and kind: "\<not> py_eq (JDict [(''kind'', JStr ''namespace'')]) (last_logical_location fresh_dumper) \<and>
      map_of [(''kind'', JStr ''namespace'')] ''kind'' = Some (JStr ''namespace'') \<and>
      \<not> py_eq (JStr ''namespace'') (JStr ''function'') \<longrightarrow>
      write_logical_location (JDict [(''kind'', JStr ''namespace'')]) fresh_dumper =
        (Returns (), fresh_dumper\<lparr>last_logical_location := JDict [(''kind'', JStr ''namespace'')]\<rparr>) \<and>
      write_logical_location (JDict [(''kind'', JStr ''namespace'')])
        (fresh_dumper\<lparr>last_logical_location := JDict [(''kind'', JStr ''namespace'')]\<rparr>) =
        (Returns (), fresh_dumper\<lparr>last_logical_location := JDict [(''kind'', JStr ''namespace'')]\<rparr>)"
    by blast
  from seen returns have "seen = encountered_in_document ?doc"
    by simp
  with seen(1) met have "last_logical_location (snd (dump_sarif_file ?doc fresh_dumper)) =
      foldl remember JNull [in_function ''f'', in_function ''g'', in_function ''g'']"
    by (simp add: fresh_dumper_def GccStyleDumper_init_def)
  also have "\<dots> = in_function ''g''"
    by (simp add: remember_def in_function_def py_eq.simps)
  finally have "last_logical_location (snd (dump_sarif_file ?doc fresh_dumper)) = in_function ''g''" .
  with met kind other show ?thesis
    by simp
qed




text \<open>
  Claim C4 fails as stated: each step renders its own location first, so a step in another
  function adds a header line and a step with a physical location starts its line with
  the position, not with the number. Three such steps give six lines after the result's.
\<close>

theorem code_flow_more_than_three_lines:
  "dump_sarif_result
     (JDict (with_steps
        [JDict [(''location'', JDict [(''logicalLocations'', JList [in_function ''f'']),
                                     (''physicalLocation'', at_line ''foo.c'' 10),
                                     (''message'', JDict [(''text'', JStr ''a'')])])],
         JDict [(''location'', JDict [(''logicalLocations'', JList [in_function ''g'']),
                                     (''physicalLocation'', at_line ''foo.c'' 20),
                                     (''message'', JDict [(''text'', JStr ''b'')])])],
         JDict [(''location'', JDict [(''logicalLocations'', JList [in_function ''f'']),
                                     (''physicalLocation'', at_line ''foo.c'' 30),
                                     (''message'', JDict [(''text'', JStr ''c'')])])]]
        [(''message'', JDict [(''text'', JStr ''m'')])]))
     fresh_dumper =
   (Returns (),
    fresh_dumper\<lparr>last_logical_location := in_function ''f'',
      dst_file :=
        ''m'' @ [CHR 0x0A] @
        ''In function '' @ [CHR 0x27] @ ''f'' @ [CHR 0x27] @ '':'' @ [CHR 0x0A] @
        ''/src/proj/foo.c:10: (1) a'' @ [CHR 0x0A] @
        ''In function '' @ [CHR 0x27] @ ''g'' @ [CHR 0x27] @ '':'' @ [CHR 0x0A] @
        ''/src/proj/foo.c:20: (2) b'' @ [CHR 0x0A] @
        ''In function '' @ [CHR 0x27] @ ''f'' @ [CHR 0x27] @ '':'' @ [CHR 0x0A] @
        ''/src/proj/foo.c:30: (3) c'' @ [CHR 0x0A]\<rparr>)"
proof -
  have digits: "show_int 10 = ''10''" "show_int 20 = ''20''" "show_int 30 = ''30''"
    by code_simp+
  show ?thesis
    by (simp add: method_defs action_defs in_function_def at_line_def fresh_dumper_def
        with_steps_def GccStyleDumper_init_def path_defs py_eq.simps digits
        show_nat_1 show_nat_2 show_nat_3)
qed

text \<open>
  Claim C4, amended. Of the code flows only the first is rendered, and of its thread flows
  only the first, after the result's own line. A thread flow of three steps renders, for
  each step in the stored order, the step's location and then one line with the number in
  parentheses, counted from 1, a space and the step's own message text. When the three
  locations hold neither a logical nor a physical location, these are exactly three lines
  starting \<^verbatim>\<open>(1) \<close>, \<^verbatim>\<open>(2) \<close> and \<^verbatim>\<open>(3) \<close>.
\<close>

theorem code_flow_lines:
  "(map_of r ''codeFlows'' = Some (JList (JDict flow # flows)) \<and>
    map_of flow ''threadFlows'' = Some (JList (thread # threads)) \<longrightarrow>
      dump_sarif_result (JDict r) d =
        bnd (dump_sarif_result (JDict (dict_without ''codeFlows'' r))) (\<lambda>_.
          write_thread_flow thread) d) \<and>
   (map_of thread' ''locations'' = Some (JList [JDict s1, JDict s2, JDict s3]) \<and>
    map_of s1 ''location'' = Some (JDict l1) \<and> map_of l1 ''message'' = Some (JDict m1) \<and>
    map_of m1 ''text'' = Some (JStr t1) \<and>
    map_of s2 ''location'' = Some (JDict l2) \<and> map_of l2 ''message'' = Some (JDict m2) \<and>
    map_of m2 ''text'' = Some (JStr t2) \<and>
    map_of s3 ''location'' = Some (JDict l3) \<and> map_of l3 ''message'' = Some (JDict m3) \<and>
    map_of m3 ''text'' = Some (JStr t3) \<longrightarrow>
      write_thread_flow (JDict thread') d =
        bnd (write_location (JDict l1)) (\<lambda>_.
        bnd (write_text (JStr (''(1) '' @ t1 @ [CHR 0x0A]))) (\<lambda>_.
        bnd (write_location (JDict l2)) (\<lambda>_.
        bnd (write_text (JStr (''(2) '' @ t2 @ [CHR 0x0A]))) (\<lambda>_.
        bnd (write_location (JDict l3)) (\<lambda>_.
        write_text (JStr (''(3) '' @ t3 @ [CHR 0x0A]))))))) d \<and>
      (map_of l1 ''logicalLocations'' = None \<and> map_of l1 ''physicalLocation'' = None \<and>
       map_of l2 ''logicalLocations'' = None \<and> map_of l2 ''physicalLocation'' = None \<and>
       map_of l3 ''logicalLocations'' = None \<and> map_of l3 ''physicalLocation'' = None \<longrightarrow>
         write_thread_flow (JDict thread') d =
           (Returns (),
            d\<lparr>dst_file := dst_file d @ ''(1) '' @ t1 @ [CHR 0x0A] @ ''(2) '' @ t2 @ [CHR 0x0A] @
               ''(3) '' @ t3 @ [CHR 0x0A]\<rparr>)))"
proof (intro conjI impI)
  assume "map_of r ''codeFlows'' = Some (JList (JDict flow # flows)) \<and>
    map_of flow ''threadFlows'' = Some (JList (thread # threads))"
  then show "dump_sarif_result (JDict r) d =
        bnd (dump_sarif_result (JDict (dict_without ''codeFlows'' r))) (\<lambda>_.
          write_thread_flow thread) d"
    by (simp add: result_then_flows write_code_flow_def bnd_eval_Returns)
next
  assume steps: "map_of thread' ''locations'' = Some (JList [JDict s1, JDict s2, JDict s3]) \<and>
    map_of s1 ''location'' = Some (JDict l1) \<and> map_of l1 ''message'' = Some (JDict m1) \<and>
    map_of m1 ''text'' = Some (JStr t1) \<and>
    map_of s2 ''location'' = Some (JDict l2) \<and> map_of l2 ''message'' = Some (JDict m2) \<and>
    map_of m2 ''text'' = Some (JStr t2) \<and>
    map_of s3 ''location'' = Some (JDict l3) \<and> map_of l3 ''message'' = Some (JDict m3) \<and>
    map_of m3 ''text'' = Some (JStr t3)"
  then show lines: "write_thread_flow (JDict thread') d =
        bnd (write_location (JDict l1)) (\<lambda>_.
        bnd (write_text (JStr (''(1) '' @ t1 @ [CHR 0x0A]))) (\<lambda>_.
        bnd (write_location (JDict l2)) (\<lambda>_.
        bnd (write_text (JStr (''(2) '' @ t2 @ [CHR 0x0A]))) (\<lambda>_.
        bnd (write_location (JDict l3)) (\<lambda>_.
        write_text (JStr (''(3) '' @ t3 @ [CHR 0x0A]))))))) d"
    by (simp add: write_thread_flow_def bnd_eval_Returns write_step bnd_assoc bnd_ret_right
        show_nat_1 show_nat_2 show_nat_3)
  assume "map_of l1 ''logicalLocations'' = None \<and> map_of l1 ''physicalLocation'' = None \<and>
       map_of l2 ''logicalLocations'' = None \<and> map_of l2 ''physicalLocation'' = None \<and>
       map_of l3 ''logicalLocations'' = None \<and> map_of l3 ''physicalLocation'' = None"
  then show "write_thread_flow (JDict thread') d =
           (Returns (),
            d\<lparr>dst_file := dst_file d @ ''(1) '' @ t1 @ [CHR 0x0A] @ ''(2) '' @ t2 @ [CHR 0x0A] @
               ''(3) '' @ t3 @ [CHR 0x0A]\<rparr>)"
    unfolding lines by (simp add: write_location_def action_defs)
qed

text \<open>
  A result with two code flows, the first with two thread flows: the three steps of the
  first thread flow are rendered and nothing else (the second code flow would raise).
\<close>

theorem code_flow_lines_witness:
  "dump_sarif_result
     (JDict [(''codeFlows'', JList
               [JDict [(''threadFlows'', JList
                  [JDict [(''locations'', JList [plain_step ''a'', plain_step ''b'', plain_step ''c''])],
                   JDict [(''locations'', JList [plain_step ''x''])]])],
                JDict [(''threadFlows'', JList [])]]),
             (''message'', JDict [(''text'', JStr ''m'')])])
     fresh_dumper =
   (Returns (),
    fresh_dumper\<lparr>dst_file := ''m'' @ [CHR 0x0A] @ ''(1) a'' @ [CHR 0x0A] @ ''(2) b'' @ [CHR 0x0A] @
      ''(3) c'' @ [CHR 0x0A]\<rparr>)"
proof -
  let ?thread = "[(''locations'', JList [plain_step ''a'', plain_step ''b'', plain_step ''c''])]"
  let ?flow = "[(''threadFlows'', JList [JDict ?thread, JDict [(''locations'', JList [plain_step ''x''])]])]"
  let ?r = "[(''codeFlows'', JList [JDict ?flow, JDict [(''threadFlows'', JList [])]]),
             (''message'', JDict [(''text'', JStr ''m'')])]"
  let ?d1 = "fresh_dumper\<lparr>dst_file := ''m'' @ [CHR 0x0A]\<rparr>"
  have main_line: "dump_sarif_result (JDict (dict_without ''codeFlows'' ?r)) fresh_dumper =
      (Returns (), ?d1)"
    by (simp add: dict_without_def dump_sarif_result_def action_defs fresh_dumper_def
        plain_step_def GccStyleDumper_init_def)
  have first_only: "dump_sarif_result (JDict ?r) fresh_dumper =
      bnd (dump_sarif_result (JDict (dict_without ''codeFlows'' ?r))) (\<lambda>_.
        write_thread_flow (JDict ?thread)) fresh_dumper"
    using code_flow_lines
      [of ?r ?flow "[JDict [(''threadFlows'', JList [])]]" "JDict ?thread"
        "[JDict [(''locations'', JList [plain_step ''x''])]]" fresh_dumper
        "[]" "[]" "[]" "[]" "[]" "[]" "[]" "[]" "[]" "[]" "[]" "[]" "[]"]
    by simp
  have lines: "write_thread_flow (JDict ?thread) ?d1 =
      (Returns (), ?d1\<lparr>dst_file := dst_file ?d1 @ ''(1) '' @ ''a'' @ [CHR 0x0A] @
         ''(2) '' @ ''b'' @ [CHR 0x0A] @ ''(3) '' @ ''c'' @ [CHR 0x0A]\<rparr>)"
    using code_flow_lines
      [of "[]" "[]" "[]" JNull "[]" ?d1 ?thread
        "[(''location'', JDict [(''message'', JDict [(''text'', JStr ''a'')])])]"
        "[(''location'', JDict [(''message'', JDict [(''text'', JStr ''b'')])])]"
        "[(''location'', JDict [(''message'', JDict [(''text'', JStr ''c'')])])]"
        "[(''message'', JDict [(''text'', JStr ''a'')])]" "[(''text'', JStr ''a'')]" "''a''"
        "[(''message'', JDict [(''text'', JStr ''b'')])]" "[(''text'', JStr ''b'')]" "''b''"
        "[(''message'', JDict [(''text'', JStr ''c'')])]" "[(''text'', JStr ''c'')]" "''c''"]
    by (simp add: plain_step_def write_location_def action_defs)
  show ?thesis
    unfolding first_only using main_line lines by (simp add: bnd_def)
qed

end
